(* ===== verification/Prelude.thy ===== *)
theory Prelude
  imports Main "HOL-Library.Word"
begin

text \<open>
  Shared vocabulary of the notes-go development: the machine integer types of the Go
  sources (\<open>int\<close> is 64 bits wide on the targets the program is built for, \<open>int32\<close>
  is the type of \<open>Note.ID\<close>), list operations the document store is built from
  (first match, removal of the first match), decimal rendering of numbers, and the
  lemmas about them that the component theories share.
\<close>

named_theorems store_simps "rewrite rules of the document store operations"

type_synonym int32 = "32 word"
type_synonym int64 = "64 word"

text \<open>Range test of a Go conversion to \<open>int32\<close>.\<close>

definition fits_int32 :: "int \<Rightarrow> bool" where
  "fits_int32 i \<longleftrightarrow> - (2 ^ 31) \<le> i \<and> i < 2 ^ 31"

text \<open>Removal of the first element with a property (MongoDB's \<open>deleteOne\<close>).\<close>

fun remove_first :: "('a \<Rightarrow> bool) \<Rightarrow> 'a list \<Rightarrow> 'a list" where
  "remove_first P [] = []"
| "remove_first P (x # xs) = (if P x then xs else x # remove_first P xs)"

text \<open>Decimal rendering of a natural number (Go's \<open>%d\<close> verb and \<open>strconv.Itoa\<close>).\<close>

fun decimal :: "nat \<Rightarrow> string" where
  "decimal n =
     (if n < 10 then [''0123456789'' ! n]
      else decimal (n div 10) @ [''0123456789'' ! (n mod 10)])"

declare decimal.simps [simp del]

text \<open>Decimal digits and their value, as Go's \<open>strconv\<close> reads them.\<close>

definition is_digit :: "char \<Rightarrow> bool" where
  "is_digit c \<longleftrightarrow> (48::nat) \<le> of_char c \<and> of_char c \<le> (57::nat)"

definition digit_val :: "char \<Rightarrow> nat" where
  "digit_val c = of_char c - 48"

fun digits_value :: "nat \<Rightarrow> string \<Rightarrow> nat" where
  "digits_value acc [] = acc"
| "digits_value acc (c # cs) = digits_value (10 * acc + digit_val c) cs"

subsection \<open>Lemmas on first matches\<close>

lemma remove_first_no_match [simp]: "\<not> list_ex P xs \<Longrightarrow> remove_first P xs = xs"
  by (induction xs) auto

lemma remove_first_append:
  "remove_first P (xs @ ys) =
     (if list_ex P xs then remove_first P xs @ ys else xs @ remove_first P ys)"
  by (induction xs) auto

lemma set_remove_first: "set (remove_first P xs) \<subseteq> set xs"
  by (induction xs) auto

lemma remove_first_single_match:
  "length (filter P xs) \<le> 1 \<Longrightarrow> remove_first P xs = filter (\<lambda>x. \<not> P x) xs"
  by (induction xs) (auto simp: filter_empty_conv list_ex_iff)

lemma length_remove_first:
  "length (remove_first P xs) = (if list_ex P xs then length xs - 1 else length xs)"
  by (induction xs) (auto simp: list_ex_iff dest: length_pos_if_in_set)

lemma find_append:
  "find P (xs @ ys) = (case find P xs of None \<Rightarrow> find P ys | Some x \<Rightarrow> Some x)"
  by (induction xs) auto

lemma find_Some_first:
  "find P xs = Some x \<Longrightarrow> \<exists>us vs. xs = us @ x # vs \<and> P x \<and> \<not> list_ex P us"
proof (induction xs)
  case Nil
  then show ?case by simp
next
  case (Cons y ys)
  show ?case
  proof (cases "P y")
    case True
    with Cons.prems show ?thesis by (intro exI [of _ "[]"] exI [of _ ys]) auto
  next
    case False
    with Cons obtain us vs where "ys = us @ x # vs" "P x" "\<not> list_ex P us" by auto
    with False show ?thesis by (intro exI [of _ "y # us"] exI [of _ vs]) auto
  qed
qed

lemma distinct_map_remove_first:
  "distinct (map f xs) \<Longrightarrow> distinct (map f (remove_first P xs))"
  by (induction xs) (auto dest: subsetD [OF set_remove_first])

subsection \<open>Lemmas on decimal rendering\<close>

lemma digits_value_snoc:
  "digits_value acc (cs @ [c]) = 10 * digits_value acc cs + digit_val c"
  by (induction cs arbitrary: acc) auto

lemma of_char_digit: "(d::nat) < 10 \<Longrightarrow> of_char (''0123456789'' ! d) = 48 + d"
  by (auto simp: less_Suc_eq numeral_eq_Suc)

lemma digit_val_char [simp]: "(d::nat) < 10 \<Longrightarrow> digit_val (''0123456789'' ! d) = d"
  by (simp add: digit_val_def of_char_digit)

lemma is_digit_char [simp]: "(d::nat) < 10 \<Longrightarrow> is_digit (''0123456789'' ! d)"
  by (simp add: is_digit_def of_char_digit)

lemma decimal_is_digit: "list_all is_digit (decimal n)"
proof (induction n rule: decimal.induct)
  case (1 n)
  then show ?case by (subst decimal.simps) simp
qed

lemma digits_value_decimal: "digits_value 0 (decimal n) = n"
proof (induction n rule: decimal.induct)
  case (1 n)
  show ?case
  proof (cases "n < 10")
    case True
    then show ?thesis by (subst decimal.simps) simp
  next
    case False
    with "1.IH" show ?thesis by (subst decimal.simps) (simp add: digits_value_snoc)
  qed
qed

lemma decimal_nonempty [simp]: "decimal n \<noteq> []"
  by (subst decimal.simps) simp

subsection \<open>Lemmas on related lists\<close>

lemma find_list_all2:
  "list_all2 R xs ys \<Longrightarrow> (\<And>x y. R x y \<Longrightarrow> P x = Q y) \<Longrightarrow> rel_option R (find P xs) (find Q ys)"
  by (induction rule: list_all2_induct) auto

lemma remove_first_list_all2:
  "list_all2 R xs ys \<Longrightarrow> (\<And>x y. R x y \<Longrightarrow> P x = Q y) \<Longrightarrow>
   list_all2 R (remove_first P xs) (remove_first Q ys)"
  by (induction rule: list_all2_induct) auto

lemma list_ex_list_all2:
  "list_all2 R xs ys \<Longrightarrow> (\<And>x y. R x y \<Longrightarrow> P x = Q y) \<Longrightarrow> list_ex P xs = list_ex Q ys"
  by (induction rule: list_all2_induct) auto

subsection \<open>Narrowing a Go \<open>int\<close> to \<open>int32\<close>\<close>

lemma sint_scast_int32:
  "fits_int32 (sint (k::int64)) \<Longrightarrow> sint (scast k :: int32) = sint k"
proof -
  assume "fits_int32 (sint k)"
  then have "signed_take_bit 31 (sint k) = sint k"
    by (intro signed_take_bit_int_eq_self) (simp_all add: fits_int32_def)
  moreover have "sint (scast k :: int32) = signed_take_bit (LENGTH(32) - 1) (sint k)"
    unfolding scast_eq by (rule sint_sbintrunc')
  ultimately show ?thesis by simp
qed

text \<open>Go's \<open>int\<close> increment wraps from the largest value to the smallest.\<close>

lemma sint_succ_int64:
  "sint ((k::int64) + 1) = (if sint k = 2 ^ 63 - 1 then - (2 ^ 63) else sint k + 1)"
proof -
  have range: "- (2 ^ 63) \<le> sint k" "sint k < 2 ^ 63"
    using sint_ge [of k] sint_lt [of k] by simp_all
  have "sint (k + 1) = signed_take_bit 63 (sint k + 1)"
    by (simp add: sint_word_ariths)
  show ?thesis
  proof (cases "sint k = 2 ^ 63 - 1")
    case True
    have "signed_take_bit 63 ((2::int) ^ 63) = - (2 ^ 63)"
      by (simp add: signed_take_bit_eq_take_bit_shift)
    with True \<open>sint (k + 1) = signed_take_bit 63 (sint k + 1)\<close> show ?thesis by simp
  next
    case False
    with range have "- (2 ^ 63) \<le> sint k + 1" "sint k + 1 < 2 ^ 63" by simp_all
    with False \<open>sint (k + 1) = signed_take_bit 63 (sint k + 1)\<close> show ?thesis
      by (simp add: signed_take_bit_int_eq_self)
  qed
qed

end
