(* ===== verification/Note.thy ===== *)
theory Note
  imports Prelude
begin

text \<open>
  The note record of \<open>src/internal/model/note.go\<close>: the Go struct \<open>Note\<close> with its
  six fields, and its zero value \<open>Note{}\<close>, which every read path of the repository
  starts from. A \<open>time.Time\<close> is either Go's zero time or an instant in milliseconds
  since the Unix epoch (the resolution of a BSON datetime).
\<close>

datatype gotime = ZeroTime | UnixMilli int

record Note =
  Name :: string
  Text :: string
  Tag :: string
  Author :: string
  CreatedAt :: gotime
  ID :: int32

definition zero_note :: Note where
  "zero_note = \<lparr>Name = [], Text = [], Tag = [], Author = [], CreatedAt = ZeroTime, ID = 0\<rparr>"

end
