(* ===== verification/Bson.thy ===== *)
theory Bson
  imports Note
begin

text \<open>
  BSON documents as the repository writes and reads them through the MongoDB Go driver.
  The driver is not part of this repository; what is modelled here is the part of its
  documented behaviour that \<open>src/internal/repository/notes.go\<close> relies on:
  \<^item> a \<open>bson.D\<close> is an ordered list of key/value pairs (\<open>doc\<close>);
  \<^item> a Go \<open>int\<close> is written as a BSON int32 when it fits and as an int64 otherwise,
    a \<open>time.Time\<close> as a datetime in milliseconds (\<open>encode_int\<close>);
  \<^item> an equality filter compares numbers by value across int32 and int64 (\<open>bval_eq\<close>);
  \<^item> a struct is decoded field by field from the document's elements, the key of a
    field without a \<open>bson\<close> tag being its Go name in lower case, unknown keys being
    skipped and a key that is not found being retried in lower case
    (\<open>struct_key\<close>, \<open>field_of_key\<close>, \<open>decode_note\<close>); a BSON int64 outside the
    \<open>int32\<close> range does not decode into an \<open>int32\<close> field.
\<close>

datatype bval =
    BString string
  | BInt32 int32
  | BInt64 int64
  | BDateTime int
  | BObjectID nat

type_synonym doc = "(string \<times> bval) list"

text \<open>Errors the driver reports to the repository.\<close>

datatype mongo_error =
    ErrNoDocuments
  | NetworkError string
  | DecodeError string

definition encode_int :: "int64 \<Rightarrow> bval" where
  "encode_int i = (if fits_int32 (sint i) then BInt32 (scast i) else BInt64 i)"

fun bval_num :: "bval \<Rightarrow> int option" where
  "bval_num (BInt32 w) = Some (sint w)"
| "bval_num (BInt64 w) = Some (sint w)"
| "bval_num _ = None"

definition bval_eq :: "bval \<Rightarrow> bval \<Rightarrow> bool" where
  "bval_eq a b =
     (case (bval_num a, bval_num b) of
        (Some x, Some y) \<Rightarrow> x = y
      | _ \<Rightarrow> a = b)"

subsection \<open>Struct keys and decoding into a \<open>Note\<close>\<close>

definition lower_ascii :: "char \<Rightarrow> char" where
  "lower_ascii c =
     (case map_of (zip ''ABCDEFGHIJKLMNOPQRSTUVWXYZ'' ''abcdefghijklmnopqrstuvwxyz'') c of
        Some l \<Rightarrow> l
      | None \<Rightarrow> c)"

definition struct_key :: "string \<Rightarrow> string" where
  "struct_key f = map lower_ascii f"

text \<open>The Go field names of \<open>model.Note\<close>, in declaration order (note.go lines 8--13).\<close>

definition note_fields :: "string list" where
  "note_fields = [''Name'', ''Text'', ''Tag'', ''Author'', ''CreatedAt'', ''ID'']"

definition field_of_key :: "string \<Rightarrow> string option" where
  "field_of_key k =
     (case find (\<lambda>f. struct_key f = k) note_fields of
        Some f \<Rightarrow> Some f
      | None \<Rightarrow> find (\<lambda>f. struct_key f = map lower_ascii k) note_fields)"

definition decode_field :: "string \<Rightarrow> bval \<Rightarrow> Note \<Rightarrow> mongo_error + Note" where
  "decode_field f v n =
     (if f = ''CreatedAt'' then
        (case v of BDateTime ms \<Rightarrow> Inr (n\<lparr>CreatedAt := UnixMilli ms\<rparr>)
         | _ \<Rightarrow> Inl (DecodeError ''cannot decode into a time.Time''))
      else if f = ''ID'' then
        (case v of
           BInt32 w \<Rightarrow> Inr (n\<lparr>ID := w\<rparr>)
         | BInt64 w \<Rightarrow>
             (if fits_int32 (sint w) then Inr (n\<lparr>ID := scast w\<rparr>)
              else Inl (DecodeError ''overflows int32''))
         | _ \<Rightarrow> Inl (DecodeError ''cannot decode into an integer type''))
      else
        (case v of
           BString s \<Rightarrow>
             Inr (if f = ''Name'' then n\<lparr>Name := s\<rparr>
                  else if f = ''Text'' then n\<lparr>Text := s\<rparr>
                  else if f = ''Tag'' then n\<lparr>Tag := s\<rparr>
                  else n\<lparr>Author := s\<rparr>)
         | _ \<Rightarrow> Inl (DecodeError ''cannot decode into a string type'')))"

fun decode_elems :: "doc \<Rightarrow> Note \<Rightarrow> mongo_error + Note" where
  "decode_elems [] n = Inr n"
| "decode_elems ((k, v) # d) n =
     (case field_of_key k of
        None \<Rightarrow> decode_elems d n
      | Some f \<Rightarrow> (case decode_field f v n of Inl e \<Rightarrow> Inl e | Inr n' \<Rightarrow> decode_elems d n'))"

text \<open>\<open>Decode(&note)\<close> with \<open>note := Note{}\<close>, as every read path of notes.go does.\<close>

definition decode_note :: "doc \<Rightarrow> mongo_error + Note" where
  "decode_note d = decode_elems d zero_note"

subsection \<open>Decoding the keys the repository writes\<close>

lemma field_of_key_note_keys [simp]:
  "field_of_key ''_id'' = None"
  "field_of_key ''name'' = Some ''Name''"
  "field_of_key ''text'' = Some ''Text''"
  "field_of_key ''tag'' = Some ''Tag''"
  "field_of_key ''author'' = Some ''Author''"
  "field_of_key ''created_at'' = None"
  "field_of_key ''id'' = Some ''ID''"
  by (simp_all add: field_of_key_def struct_key_def note_fields_def lower_ascii_def)

end
