(* ===== verification/Mongo.thy ===== *)
theory Mongo
  imports Bson
begin

text \<open>
  One MongoDB collection as the repository sees it, and the client set-up of
  \<open>src/internal/repository/mongo.go\<close>. The collection keeps its documents in natural
  (insertion) order, which is the order in which the server returns them when no sort is
  given; \<open>next_oid\<close> stands for the driver's generator of \<open>_id\<close> values.

  Every operation is one request/response round trip. Its first argument \<open>net\<close> is the
  outcome of the transport for this call: \<open>Some e\<close> when the call fails with \<open>e\<close>
  before the server acts, \<open>None\<close> when the server executes it. The operations are the
  driver calls notes.go makes: \<open>InsertOne\<close>, \<open>DeleteOne\<close>, \<open>FindOne\<close> followed by
  \<open>Decode\<close>, and \<open>Find\<close> followed by \<open>Cursor.All\<close>.
\<close>

record coll =
  docs :: "doc list"
  next_oid :: nat

definition empty_coll :: coll where
  "empty_coll = \<lparr>docs = [], next_oid = 0\<rparr>"

text \<open>An equality filter \<open>bson.D{{key, value}, ...}\<close>: every pair must match.\<close>

definition matches :: "doc \<Rightarrow> doc \<Rightarrow> bool" where
  "matches f d \<longleftrightarrow>
     list_all (\<lambda>(k, v). case map_of d k of None \<Rightarrow> False | Some v' \<Rightarrow> bval_eq v' v) f"

text \<open>\<open>InsertOne\<close>: a document without \<open>_id\<close> gets a fresh one in front.\<close>

definition insert_one :: "mongo_error option \<Rightarrow> doc \<Rightarrow> coll \<Rightarrow> (mongo_error + nat) \<times> coll" where
  "insert_one net d c =
     (case net of
        Some e \<Rightarrow> (Inl e, c)
      | None \<Rightarrow>
          (let d' = (if list_ex (\<lambda>(k, _). k = ''_id'') d then d
                     else (''_id'', BObjectID (next_oid c)) # d)
           in (Inr (next_oid c), c\<lparr>docs := docs c @ [d'], next_oid := Suc (next_oid c)\<rparr>)))"

text \<open>\<open>DeleteOne\<close>: removes the first matching document; the count deleted is returned.\<close>

definition delete_one :: "mongo_error option \<Rightarrow> doc \<Rightarrow> coll \<Rightarrow> (mongo_error + nat) \<times> coll" where
  "delete_one net f c =
     (case net of
        Some e \<Rightarrow> (Inl e, c)
      | None \<Rightarrow>
          (if list_ex (matches f) (docs c)
           then (Inr 1, c\<lparr>docs := remove_first (matches f) (docs c)\<rparr>)
           else (Inr 0, c)))"

text \<open>\<open>FindOne\<close>: the single result, an error or the first matching document. Without a
  sort MongoDB returns documents in natural order; the model takes it to be insertion
  order, which MongoDB does not guarantee.\<close>

definition find_one :: "mongo_error option \<Rightarrow> doc \<Rightarrow> coll \<Rightarrow> mongo_error + doc" where
  "find_one net f c =
     (case net of
        Some e \<Rightarrow> Inl e
      | None \<Rightarrow> (case find (matches f) (docs c) of None \<Rightarrow> Inl ErrNoDocuments | Some d \<Rightarrow> Inr d))"

text \<open>\<open>SingleResult.Decode\<close>: the stored error, or the document decoded.\<close>

definition single_decode :: "mongo_error + doc \<Rightarrow> mongo_error + Note" where
  "single_decode r = (case r of Inl e \<Rightarrow> Inl e | Inr d \<Rightarrow> decode_note d)"

text \<open>\<open>Find\<close>: a cursor over the matching documents, in natural order.\<close>

definition find_docs :: "mongo_error option \<Rightarrow> doc \<Rightarrow> coll \<Rightarrow> mongo_error + doc list" where
  "find_docs net f c = (case net of Some e \<Rightarrow> Inl e | None \<Rightarrow> Inr (filter (matches f) (docs c)))"

text \<open>
  \<open>Cursor.All\<close>: decodes every document into a fresh element; the first failure aborts
  and the result slice is then left as it was.
\<close>

fun cursor_all :: "doc list \<Rightarrow> mongo_error + Note list" where
  "cursor_all [] = Inr []"
| "cursor_all (d # ds) =
     (case decode_note d of
        Inl e \<Rightarrow> Inl e
      | Inr n \<Rightarrow> (case cursor_all ds of Inl e \<Rightarrow> Inl e | Inr ns \<Rightarrow> Inr (n # ns)))"

subsection \<open>Errors of the Go code and the client set-up\<close>

text \<open>
  A Go \<open>error\<close> as the repository builds it: \<open>fmt.Errorf\<close> with a plain message, or
  with a message and a wrapped driver error (\<open>%w\<close>); \<open>Panic\<close> is a run-time panic of
  the process (a nil pointer dereference).
\<close>

datatype goerror =
    Errorf string
  | Wrapf string mongo_error
  | Panic string

record coll_ref =
  database :: string
  coll_name :: string

definition notes_handle :: coll_ref where
  "notes_handle = \<lparr>database = ''go-notes'', coll_name = ''notes''\<rparr>"

text \<open>
  \<open>InitMongoClient\<close> (mongo.go lines 12--28): \<open>connect\<close> and \<open>ping\<close> are the outcomes of
  \<open>mongo.Connect\<close> and \<open>client.Ping\<close>; the handle names database \<open>go-notes\<close>,
  collection \<open>notes\<close>.
\<close>

definition init_mongo_client ::
  "mongo_error option \<Rightarrow> mongo_error option \<Rightarrow> goerror + coll_ref" where
  "init_mongo_client connect ping =
     (case connect of
        Some e \<Rightarrow> Inl (Wrapf ''initialize mongo client'' e)
      | None \<Rightarrow>
          (case ping of
             Some e \<Rightarrow> Inl (Wrapf ''connecting to mongodb server'' e)
           | None \<Rightarrow> Inr notes_handle))"


text \<open>The operations of the collection, unfolded when a scenario is evaluated.\<close>

declare empty_coll_def [store_simps] matches_def [store_simps] insert_one_def [store_simps]
  delete_one_def [store_simps] find_one_def [store_simps] single_decode_def [store_simps]
  find_docs_def [store_simps]

end
