(* ===== verification/Repository.thy ===== *)
theory Repository
  imports Mongo
begin

text \<open>
  The notes repository of \<open>src/internal/repository/notes.go\<close>:
  \<open>NotesRepositoryImpl\<close> as the record \<open>notes_repo\<close> (the collection handle, \<open>None\<close>
  for a nil pointer, and the process-local id counter, a Go \<open>int\<close>), and its five
  methods \<open>Add\<close>, \<open>Delete\<close>, \<open>ByAuthor\<close>, \<open>ByName\<close> and \<open>All_notes\<close> (\<open>All\<close>),
  each taking the collection's contents and returning the result with the new state.
  The process environment read by \<open>Add\<close> (\<open>user.Current()\<close>, \<open>time.Now()\<close>) is the
  record \<open>env\<close>.
\<close>

record env =
  current_user :: "string option"
  now :: int

record notes_repo =
  collection :: "coll_ref option"
  counter :: int64

definition NewNotesRepository :: "coll_ref option \<Rightarrow> int64 \<Rightarrow> notes_repo" where
  "NewNotesRepository h k = \<lparr>collection = h, counter = k\<rparr>"

definition nil_deref :: goerror where
  "nil_deref = Panic ''invalid memory address or nil pointer dereference''"

text \<open>The \<open>bson.D\<close> literal of \<open>Add\<close> (notes.go lines 29--36).\<close>

definition note_doc :: "Note \<Rightarrow> string \<Rightarrow> int \<Rightarrow> int64 \<Rightarrow> doc" where
  "note_doc note u t k =
     [(''name'', BString (Name note)), (''text'', BString (Text note)),
      (''tag'', BString (Tag note)), (''author'', BString u),
      (''created_at'', BDateTime t), (''id'', encode_int k)]"

definition Add :: "env \<Rightarrow> mongo_error option \<Rightarrow> Note \<Rightarrow> notes_repo \<Rightarrow> coll \<Rightarrow>
    (goerror + unit) \<times> notes_repo \<times> coll" where
  "Add en net note r c =
     (case current_user en of
        None \<Rightarrow> (Inl nil_deref, r, c)
      | Some u \<Rightarrow>
          (case collection r of
             None \<Rightarrow> (Inl nil_deref, r, c)
           | Some _ \<Rightarrow>
               (case insert_one net (note_doc note u (now en) (counter r)) c of
                  (Inl e, c') \<Rightarrow> (Inl (Wrapf ''add note'' e), r, c')
                | (Inr _, c') \<Rightarrow> (Inr (), r\<lparr>counter := counter r + 1\<rparr>, c'))))"

definition Delete :: "mongo_error option \<Rightarrow> int32 \<Rightarrow> notes_repo \<Rightarrow> coll \<Rightarrow>
    (goerror + unit) \<times> coll" where
  "Delete net i r c =
     (case collection r of
        None \<Rightarrow> (Inl nil_deref, c)
      | Some _ \<Rightarrow>
          (case delete_one net [(''id'', BInt32 i)] c of
             (Inl e, c') \<Rightarrow> (Inl (Wrapf ''delete note'' e), c')
           | (Inr _, c') \<Rightarrow> (Inr (), c')))"

definition ByAuthor :: "mongo_error option \<Rightarrow> string \<Rightarrow> notes_repo \<Rightarrow> coll \<Rightarrow> goerror + Note" where
  "ByAuthor net author r c =
     (case collection r of
        None \<Rightarrow> Inl nil_deref
      | Some _ \<Rightarrow>
          (case single_decode (find_one net [(''author'', BString author)] c) of
             Inl e \<Rightarrow>
               (if e = ErrNoDocuments then Inl (Errorf ''no documents by given filter'')
                else Inl (Wrapf ''show note by author'' e))
           | Inr note \<Rightarrow> Inr note))"

definition ByName :: "mongo_error option \<Rightarrow> string \<Rightarrow> notes_repo \<Rightarrow> coll \<Rightarrow> goerror + Note" where
  "ByName net name r c =
     (case collection r of
        None \<Rightarrow> Inl nil_deref
      | Some _ \<Rightarrow>
          (case single_decode (find_one net [(''name'', BString name)] c) of
             Inl e \<Rightarrow>
               (if e = ErrNoDocuments then Inl (Errorf ''no documents by given filter'')
                else Inl (Wrapf ''show note by author'' e))
           | Inr note \<Rightarrow> Inr note))"

text \<open>
  \<open>All\<close>: the error of \<open>cursor.All\<close> is formatted and dropped (notes.go line 100), so
  the still-nil slice is returned with no error.
\<close>

definition All_notes :: "mongo_error option \<Rightarrow> notes_repo \<Rightarrow> coll \<Rightarrow> goerror + Note list" where
  "All_notes net r c =
     (case collection r of
        None \<Rightarrow> Inl nil_deref
      | Some _ \<Rightarrow>
          (case find_docs net [] c of
             Inl e \<Rightarrow> Inl (Wrapf ''get all notes'' e)
           | Inr cur \<Rightarrow> (case cursor_all cur of Inl _ \<Rightarrow> Inr [] | Inr notes \<Rightarrow> Inr notes)))"

subsection \<open>The abstract store\<close>

text \<open>
  The repository contract of the specification: a sequence of notes in server order,
  each with name, text, tag, author, creation time and id (\<open>spec_note\<close>); create
  appends, delete removes the first note with the id, the finds return the first note
  with the name or author. \<open>spec_doc\<close> is the document a note is stored as (without
  its \<open>_id\<close>), \<open>stored_as\<close> and \<open>repr\<close> relate the collection to the abstract
  sequence, and \<open>read_view\<close> is the \<open>Note\<close> a reader gets back for a stored note.
\<close>

record spec_note =
  sname :: string
  stext :: string
  stag :: string
  sauthor :: string
  screated :: int
  sid :: int64

definition spec_doc :: "spec_note \<Rightarrow> doc" where
  "spec_doc s =
     note_doc \<lparr>Name = sname s, Text = stext s, Tag = stag s, Author = [], CreatedAt = ZeroTime, ID = 0\<rparr>
       (sauthor s) (screated s) (sid s)"

definition read_view :: "spec_note \<Rightarrow> Note" where
  "read_view s = \<lparr>Name = sname s, Text = stext s, Tag = stag s, Author = sauthor s,
                  CreatedAt = ZeroTime, ID = scast (sid s)\<rparr>"

definition id_fits :: "spec_note \<Rightarrow> bool" where
  "id_fits s \<longleftrightarrow> fits_int32 (sint (sid s))"

definition stored_as :: "doc \<Rightarrow> spec_note \<Rightarrow> bool" where
  "stored_as d s \<longleftrightarrow>
     (case d of (k, BObjectID _) # rest \<Rightarrow> k = ''_id'' \<and> rest = spec_doc s | _ \<Rightarrow> False)"

definition repr :: "coll \<Rightarrow> spec_note list \<Rightarrow> bool" where
  "repr c ss \<longleftrightarrow> list_all2 stored_as (docs c) ss"

definition created_note :: "Note \<Rightarrow> string \<Rightarrow> int \<Rightarrow> int64 \<Rightarrow> spec_note" where
  "created_note note u t k =
     \<lparr>sname = Name note, stext = Text note, stag = Tag note, sauthor = u, screated = t, sid = k\<rparr>"

definition spec_delete :: "spec_note list \<Rightarrow> int \<Rightarrow> spec_note list" where
  "spec_delete ss i = remove_first (\<lambda>s. sint (sid s) = i) ss"

definition spec_find_name :: "spec_note list \<Rightarrow> string \<Rightarrow> spec_note option" where
  "spec_find_name ss n = find (\<lambda>s. sname s = n) ss"

definition spec_find_author :: "spec_note list \<Rightarrow> string \<Rightarrow> spec_note option" where
  "spec_find_author ss a = find (\<lambda>s. sauthor s = a) ss"

definition found_view :: "spec_note option \<Rightarrow> mongo_error + Note" where
  "found_view o_s =
     (case o_s of
        None \<Rightarrow> Inl ErrNoDocuments
      | Some s \<Rightarrow> if id_fits s then Inr (read_view s) else Inl (DecodeError ''overflows int32''))"

subsection \<open>The repository interface as operations\<close>

text \<open>
  The \<open>NotesRepository\<close> interface (notes.go lines 106--112) as a datatype of calls,
  the step that performs one call on the implementation (\<open>repo_step\<close>), and the
  step of the abstract store for a call whose round trip succeeds (\<open>spec_step\<close>,
  state: the counter and the abstract sequence).
\<close>

datatype repo_op =
    OpAdd Note
  | OpDelete int32
  | OpByAuthor string
  | OpByName string
  | OpAll

datatype repo_result =
    RUnit "goerror + unit"
  | RNote "goerror + Note"
  | RNotes "goerror + Note list"

fun repo_step :: "env \<Rightarrow> mongo_error option \<Rightarrow> repo_op \<Rightarrow> notes_repo \<times> coll \<Rightarrow>
    repo_result \<times> notes_repo \<times> coll" where
  "repo_step en net (OpAdd n) (r, c) = (case Add en net n r c of (res, r', c') \<Rightarrow> (RUnit res, r', c'))"
| "repo_step en net (OpDelete i) (r, c) = (case Delete net i r c of (res, c') \<Rightarrow> (RUnit res, r, c'))"
| "repo_step en net (OpByAuthor a) (r, c) = (RNote (ByAuthor net a r c), r, c)"
| "repo_step en net (OpByName n) (r, c) = (RNote (ByName net n r c), r, c)"
| "repo_step en net OpAll (r, c) = (RNotes (All_notes net r c), r, c)"

definition find_result :: "mongo_error + Note \<Rightarrow> goerror + Note" where
  "find_result x =
     (case x of
        Inl e \<Rightarrow> if e = ErrNoDocuments then Inl (Errorf ''no documents by given filter'')
                 else Inl (Wrapf ''show note by author'' e)
      | Inr n \<Rightarrow> Inr n)"

fun spec_step :: "string \<Rightarrow> int \<Rightarrow> repo_op \<Rightarrow> int64 \<times> spec_note list \<Rightarrow>
    repo_result \<times> int64 \<times> spec_note list" where
  "spec_step u t (OpAdd n) (k, ss) = (RUnit (Inr ()), k + 1, ss @ [created_note n u t k])"
| "spec_step u t (OpDelete i) (k, ss) = (RUnit (Inr ()), k, spec_delete ss (sint i))"
| "spec_step u t (OpByAuthor a) (k, ss) =
     (RNote (find_result (found_view (spec_find_author ss a))), k, ss)"
| "spec_step u t (OpByName n) (k, ss) =
     (RNote (find_result (found_view (spec_find_name ss n))), k, ss)"
| "spec_step u t OpAll (k, ss) =
     (RNotes (Inr (if list_all id_fits ss then map read_view ss else [])), k, ss)"

subsection \<open>Stored documents\<close>

lemma decode_spec_doc:
  "decode_note ((''_id'', BObjectID oid) # spec_doc s) =
     (if id_fits s then Inr (read_view s) else Inl (DecodeError ''overflows int32''))"
  by (simp add: decode_note_def spec_doc_def note_doc_def encode_int_def decode_field_def
      read_view_def id_fits_def zero_note_def)

lemma matches_spec_doc:
  "matches [] ((''_id'', BObjectID oid) # spec_doc s)"
  "matches [(''name'', BString n)] ((''_id'', BObjectID oid) # spec_doc s) \<longleftrightarrow> sname s = n"
  "matches [(''author'', BString a)] ((''_id'', BObjectID oid) # spec_doc s) \<longleftrightarrow> sauthor s = a"
  "matches [(''id'', BInt32 i)] ((''_id'', BObjectID oid) # spec_doc s) \<longleftrightarrow> sint (sid s) = sint i"
  by (auto simp: matches_def spec_doc_def note_doc_def encode_int_def bval_eq_def sint_scast_int32)

lemma stored_as_iff: "stored_as d s \<longleftrightarrow> (\<exists>oid. d = (''_id'', BObjectID oid) # spec_doc s)"
  by (auto simp: stored_as_def split: list.splits prod.splits bval.splits)

lemma stored_as_matches:
  assumes "stored_as d s"
  shows "matches [] d"
    and "matches [(''name'', BString n)] d \<longleftrightarrow> sname s = n"
    and "matches [(''author'', BString a)] d \<longleftrightarrow> sauthor s = a"
    and "matches [(''id'', BInt32 i)] d \<longleftrightarrow> sint (sid s) = sint i"
  using assms by (auto simp: stored_as_iff matches_spec_doc)

lemma stored_as_decode:
  "stored_as d s \<Longrightarrow>
   decode_note d = (if id_fits s then Inr (read_view s) else Inl (DecodeError ''overflows int32''))"
  by (auto simp: stored_as_iff decode_spec_doc)

lemma spec_doc_created: "spec_doc (created_note note u t k) = note_doc note u t k"
  by (simp add: spec_doc_def created_note_def note_doc_def)

lemma note_doc_no_id: "\<not> list_ex (\<lambda>(k, _). k = ''_id'') (note_doc note u t k)"
  by (simp add: note_doc_def)

lemma repr_empty: "repr empty_coll []"
  by (simp add: repr_def empty_coll_def)

lemma cursor_all_stored:
  "list_all2 stored_as ds ss \<Longrightarrow>
   cursor_all ds =
     (if list_all id_fits ss then Inr (map read_view ss) else Inl (DecodeError ''overflows int32''))"
  by (induction rule: list_all2_induct) (auto simp: stored_as_decode)

lemma Add_refines:
  assumes "repr c ss" "current_user en = Some u" "collection r \<noteq> None"
    and "Add en net note r c = (res, r', c')"
  shows "repr c' (if net = None then ss @ [created_note note u (now en) (counter r)] else ss)"
proof (cases net)
  case None
  have "stored_as ((''_id'', BObjectID (next_oid c)) # note_doc note u (now en) (counter r))
          (created_note note u (now en) (counter r))"
    by (simp add: stored_as_def spec_doc_created)
  with assms None show ?thesis
    by (auto simp: Add_def insert_one_def repr_def note_doc_no_id list_all2_appendI)
next
  case (Some e)
  with assms show ?thesis by (auto simp: Add_def insert_one_def)
qed

lemma Delete_refines:
  assumes "repr c ss" "collection r \<noteq> None" "Delete net i r c = (res, c')"
  shows "repr c' (if net = None then spec_delete ss (sint i) else ss)"
proof (cases net)
  case None
  from assms(1) have rel: "list_all2 stored_as (docs c) ss" by (simp add: repr_def)
  have eq: "\<And>d s. stored_as d s \<Longrightarrow> matches [(''id'', BInt32 i)] d = (sint (sid s) = sint i)"
    by (rule stored_as_matches(4))
  have rm: "list_all2 stored_as (remove_first (matches [(''id'', BInt32 i)]) (docs c))
              (spec_delete ss (sint i))"
    unfolding spec_delete_def using rel eq by (rule remove_first_list_all2)
  have ex: "list_ex (matches [(''id'', BInt32 i)]) (docs c) = list_ex (\<lambda>s. sint (sid s) = sint i) ss"
    using rel eq by (rule list_ex_list_all2)
  show ?thesis
    using assms None rm ex rel
    by (auto simp: Delete_def delete_one_def repr_def spec_delete_def split: if_splits)
next
  case (Some e)
  with assms show ?thesis by (auto simp: Delete_def delete_one_def)
qed

lemma find_one_stored:
  assumes "repr c ss" "\<And>d s. stored_as d s \<Longrightarrow> matches f d = Q s"
  shows "single_decode (find_one None f c) = found_view (find Q ss)"
proof -
  from assms have rel: "rel_option stored_as (find (matches f) (docs c)) (find Q ss)"
    unfolding repr_def by (rule find_list_all2)
  then show ?thesis
    by (cases "find (matches f) (docs c)"; cases "find Q ss")
      (auto simp: find_one_def single_decode_def found_view_def stored_as_decode)
qed

lemma ByName_refines:
  assumes "repr c ss" "collection r \<noteq> None"
  shows "ByName None n r c = find_result (found_view (spec_find_name ss n))"
proof -
  have "single_decode (find_one None [(''name'', BString n)] c) = found_view (spec_find_name ss n)"
    unfolding spec_find_name_def using assms(1) by (rule find_one_stored) (rule stored_as_matches(2))
  with assms(2) show ?thesis by (auto simp: ByName_def find_result_def)
qed

lemma ByAuthor_refines:
  assumes "repr c ss" "collection r \<noteq> None"
  shows "ByAuthor None a r c = find_result (found_view (spec_find_author ss a))"
proof -
  have "single_decode (find_one None [(''author'', BString a)] c) = found_view (spec_find_author ss a)"
    unfolding spec_find_author_def using assms(1) by (rule find_one_stored) (rule stored_as_matches(3))
  with assms(2) show ?thesis by (auto simp: ByAuthor_def find_result_def)
qed

lemma All_refines:
  assumes "repr c ss" "collection r \<noteq> None"
  shows "All_notes None r c = Inr (if list_all id_fits ss then map read_view ss else [])"
proof -
  have "filter (matches []) (docs c) = docs c" by (simp add: matches_def)
  with assms show ?thesis
    by (simp add: All_notes_def find_docs_def repr_def cursor_all_stored split: option.splits)
qed

lemma Add_result:
  assumes "current_user en = Some u" "collection r \<noteq> None" "Add en None nt r c = (res, r', c')"
  shows "res = Inr () \<and> r' = r\<lparr>counter := counter r + 1\<rparr>"
  using assms by (auto simp: Add_def insert_one_def)

lemma step_refines:
  assumes "repr c ss" "current_user en = Some u" "collection r \<noteq> None"
    and "repo_step en None op (r, c) = (res, r', c')"
    and "spec_step u (now en) op (counter r, ss) = (res', k', ss')"
  shows "res = res' \<and> counter r' = k' \<and> collection r' = collection r \<and> repr c' ss'"
proof (cases op)
  case (OpAdd n)
  then obtain x where add: "Add en None n r c = (x, r', c')" and x: "res = RUnit x"
    using assms(4) by (auto split: prod.splits)
  have "repr c' (ss @ [created_note n u (now en) (counter r)])"
    using Add_refines [OF assms(1-3) add] by simp
  with add x OpAdd assms(2,3,5) show ?thesis
    by (auto simp: Add_def insert_one_def split: option.splits)
next
  case (OpDelete i)
  then obtain x where del: "Delete None i r c = (x, c')" and x: "res = RUnit x" and "r' = r"
    using assms(4) by (auto split: prod.splits)
  have "repr c' (spec_delete ss (sint i))"
    using Delete_refines [OF assms(1,3) del] by simp
  with del x OpDelete assms(3,5) \<open>r' = r\<close> show ?thesis
    by (auto simp: Delete_def delete_one_def split: option.splits if_splits)
next
  case (OpByAuthor a)
  with assms show ?thesis by (auto simp: ByAuthor_refines)
next
  case (OpByName n)
  with assms show ?thesis by (auto simp: ByName_refines)
next
  case OpAll
  with assms show ?thesis by (auto simp: All_refines)
qed

subsection \<open>Behaviour of each method\<close>

text \<open>
  C7. A successful \<open>Add\<close> stores the note's name, text and tag with the process user
  as author, the current time as \<open>created_at\<close> and the counter as \<open>id\<close>, appended
  after the existing documents with a fresh \<open>_id\<close>, and increments the counter.
\<close>

theorem Add_success:
  assumes "current_user en = Some u" and "collection r \<noteq> None"
  shows "Add en None nt r c =
           (Inr (), r\<lparr>counter := counter r + 1\<rparr>,
            c\<lparr>docs := docs c @ [(''_id'', BObjectID (next_oid c)) # note_doc nt u (now en) (counter r)],
              next_oid := Suc (next_oid c)\<rparr>)"
  using assms by (auto simp: Add_def insert_one_def note_doc_no_id)

theorem Add_success_witness:
  "Add \<lparr>current_user = Some ''bob'', now = 1000\<rparr> None zero_note
       \<lparr>collection = Some notes_handle, counter = 7\<rparr> empty_coll =
     (Inr (), \<lparr>collection = Some notes_handle, counter = 8\<rparr>,
      \<lparr>docs = [(''_id'', BObjectID 0) # note_doc zero_note ''bob'' 1000 7], next_oid = 1\<rparr>)"
  using Add_success [where en = "\<lparr>current_user = Some ''bob'', now = 1000\<rparr>" and u = "''bob''"
      and r = "\<lparr>collection = Some notes_handle, counter = 7\<rparr>" and nt = zero_note and c = empty_coll]
  by (simp add: empty_coll_def)

text \<open>
  C8. When the insert fails, \<open>Add\<close> returns the driver error wrapped as
  \<open>add note: ...\<close> and leaves the counter where it was: the increment on line 41 is
  after the early return.
\<close>

theorem Add_failure_keeps_counter:
  assumes "current_user en = Some u" and "collection r \<noteq> None"
  shows "Add en (Some e) nt r c = (Inl (Wrapf ''add note'' e), r, c)"
  using assms by (auto simp: Add_def insert_one_def)

theorem Add_failure_keeps_counter_witness:
  "Add \<lparr>current_user = Some ''bob'', now = 1000\<rparr> (Some (NetworkError ''timeout'')) zero_note
       \<lparr>collection = Some notes_handle, counter = 7\<rparr> empty_coll =
     (Inl (Wrapf ''add note'' (NetworkError ''timeout'')),
      \<lparr>collection = Some notes_handle, counter = 7\<rparr>, empty_coll)"
  using Add_failure_keeps_counter [where en = "\<lparr>current_user = Some ''bob'', now = 1000\<rparr>"
      and u = "''bob''" and r = "\<lparr>collection = Some notes_handle, counter = 7\<rparr>"
      and e = "NetworkError ''timeout''" and nt = zero_note and c = empty_coll]
  by simp

text \<open>
  C22. On an empty collection both finds fail with the not-found error
  \<open>no documents by given filter\<close>.
\<close>

theorem find_on_empty_store:
  assumes "collection r \<noteq> None"
  shows "ByName None n r empty_coll = Inl (Errorf ''no documents by given filter'')
       \<and> ByAuthor None n r empty_coll = Inl (Errorf ''no documents by given filter'')"
  using assms
  by (auto simp: ByName_def ByAuthor_def find_one_def single_decode_def empty_coll_def)

theorem find_on_empty_store_witness:
  "ByName None ''shopping'' \<lparr>collection = Some notes_handle, counter = 0\<rparr> empty_coll =
     Inl (Errorf ''no documents by given filter'')
   \<and> ByAuthor None ''shopping'' \<lparr>collection = Some notes_handle, counter = 0\<rparr> empty_coll =
     Inl (Errorf ''no documents by given filter'')"
  using find_on_empty_store [where r = "\<lparr>collection = Some notes_handle, counter = 0\<rparr>"
      and n = "''shopping''"]
  by simp

text \<open>C23. Listing an empty collection succeeds with the empty sequence.\<close>

theorem All_empty_store:
  assumes "collection r \<noteq> None"
  shows "All_notes None r empty_coll = Inr []"
  using assms by (auto simp: All_notes_def find_docs_def empty_coll_def)

theorem All_empty_store_witness:
  "All_notes None \<lparr>collection = Some notes_handle, counter = 0\<rparr> empty_coll = Inr []"
  using All_empty_store [where r = "\<lparr>collection = Some notes_handle, counter = 0\<rparr>"]
  by simp

text \<open>
  C24. Deleting an id that no document carries succeeds and leaves the collection as it
  was: \<open>Delete\<close> does not check the deleted count.
\<close>

theorem Delete_missing_id:
  assumes "collection r \<noteq> None" and "\<not> list_ex (matches [(''id'', BInt32 i)]) (docs c)"
  shows "Delete None i r c = (Inr (), c)"
  using assms by (auto simp: Delete_def delete_one_def)

theorem Delete_missing_id_witness:
  "Delete None 42 \<lparr>collection = Some notes_handle, counter = 0\<rparr> empty_coll = (Inr (), empty_coll)"
  using Delete_missing_id [where r = "\<lparr>collection = Some notes_handle, counter = 0\<rparr>"
      and i = 42 and c = empty_coll]
  by (simp add: empty_coll_def)

text \<open>
  C25. A failure of \<open>ByName\<close> other than not-found is reported as
  \<open>show note by author: ...\<close>: the message of \<open>ByAuthor\<close> was copied unchanged
  (notes.go line 84).
\<close>

theorem ByName_error_label:
  assumes "ByName net n r c = Inl (Wrapf m e)"
  shows "m = ''show note by author''"
  using assms by (auto simp: ByName_def nil_deref_def split: option.splits sum.splits if_splits)

theorem ByName_error_label_witness:
  "\<exists>m e. ByName (Some (NetworkError ''timeout'')) ''shopping''
            \<lparr>collection = Some notes_handle, counter = 0\<rparr> empty_coll = Inl (Wrapf m e)
        \<and> m = ''show note by author''"
proof -
  have h: "ByName (Some (NetworkError ''timeout'')) ''shopping''
             \<lparr>collection = Some notes_handle, counter = 0\<rparr> empty_coll =
           Inl (Wrapf ''show note by author'' (NetworkError ''timeout''))"
    by (simp add: ByName_def find_one_def single_decode_def)
  show ?thesis using h ByName_error_label [OF h] by blast
qed

text \<open>
  C21. When a stored note's id does not fit in \<open>int32\<close> (\<open>Note.ID\<close>), \<open>Cursor.All\<close>
  fails, and \<open>All\<close> drops that error and returns an empty listing with no error, so
  one such note hides every note.
\<close>

theorem All_swallows_decode_error:
  assumes "repr c ss" and "collection r \<noteq> None" and "\<not> list_all id_fits ss"
  shows "All_notes None r c = Inr []"
  using All_refines [OF assms(1,2)] assms(3) by simp

theorem All_swallows_decode_error_witness:
  "All_notes None \<lparr>collection = Some notes_handle, counter = 2147483649\<rparr>
     \<lparr>docs = [(''_id'', BObjectID 0) # note_doc zero_note ''bob'' 0 2147483648], next_oid = 1\<rparr> = Inr []"
proof -
  have "repr \<lparr>docs = [(''_id'', BObjectID 0) # note_doc zero_note ''bob'' 0 2147483648], next_oid = 1\<rparr>
          [created_note zero_note ''bob'' 0 2147483648]"
    by (simp add: repr_def stored_as_def spec_doc_created)
  moreover have "\<not> list_all id_fits [created_note zero_note ''bob'' 0 2147483648]"
    by (simp add: id_fits_def created_note_def fits_int32_def)
  ultimately show ?thesis
    using All_swallows_decode_error [where r = "\<lparr>collection = Some notes_handle, counter = 2147483649\<rparr>"]
    by simp
qed

text \<open>
  C26. The counter is a 64-bit Go \<open>int\<close>: a successful \<open>Add\<close> increments it by one, and
  at the largest value it wraps around to the smallest, so later notes get negative ids.
\<close>

theorem Add_counter_wraps:
  assumes "current_user en = Some u" and "collection r \<noteq> None"
    and "Add en None nt r c = (res, r', c')"
  shows "sint (counter r') =
           (if sint (counter r) = 2 ^ 63 - 1 then - (2 ^ 63) else sint (counter r) + 1)"
  using assms by (auto simp: Add_def insert_one_def sint_succ_int64)

theorem Add_counter_wraps_witness:
  "sint (counter (fst (snd (Add \<lparr>current_user = Some ''bob'', now = 0\<rparr> None zero_note
      \<lparr>collection = Some notes_handle, counter = 9223372036854775807\<rparr> empty_coll))))
   = - 9223372036854775808"
proof -
  let ?en = "\<lparr>current_user = Some ''bob'', now = 0\<rparr>"
  let ?r = "\<lparr>collection = Some notes_handle, counter = 9223372036854775807\<rparr>"
  have "sint (counter ?r) = 2 ^ 63 - 1" by simp
  then show ?thesis
    using Add_counter_wraps [where en = ?en and u = "''bob''" and r = ?r and nt = zero_note
        and c = empty_coll and res = "fst (Add ?en None zero_note ?r empty_coll)"
        and r' = "fst (snd (Add ?en None zero_note ?r empty_coll))"
        and c' = "snd (snd (Add ?en None zero_note ?r empty_coll))"]
    by simp
qed

end
