(* ===== verification/Cli.thy ===== *)
theory Cli
  imports Repository
begin

text \<open>
  The command-line commands of \<open>src/cmd/main.go\<close> (\<open>initCLI\<close>, lines 75--134): the
  actions of \<open>add\<close>, \<open>del\<close>, \<open>mine\<close> and \<open>name\<close>, each run in a process that has
  the repository \<open>notesRepo\<close> and the collection's contents, and the lookup of a
  command by name or alias. An action returns the error it hands to the CLI framework,
  the lines it prints, and the new repository and collection. The helpers it calls from
  libraries are modelled from their documented behaviour: \<open>Args().Get(i)\<close> is the
  empty string past the end (\<open>args_get\<close>), \<open>strconv.Atoi\<close> reads an optional sign and
  decimal digits, returning 0 with an error on a syntax error and the nearest 64-bit
  bound with an error out of range (\<open>atoi\<close>); \<open>int32(x)\<close> keeps the low 32 bits.
  The last section shows that every action is one call of the repository interface
  (\<open>command_op\<close>) followed by the presentation of its result (\<open>present\<close>).
\<close>

definition args_get :: "string list \<Rightarrow> nat \<Rightarrow> string" where
  "args_get args i = (if i < length args then args ! i else [])"

definition split_sign :: "string \<Rightarrow> bool \<times> string" where
  "split_sign s =
     (case s of
        [] \<Rightarrow> (False, [])
      | c # cs \<Rightarrow>
          if c = CHR ''-'' then (True, cs) else if c = CHR ''+'' then (False, cs) else (False, s))"

definition atoi :: "string \<Rightarrow> int \<times> bool" where
  "atoi s =
     (case split_sign s of
        (neg, ds) \<Rightarrow>
          if ds = [] \<or> \<not> list_all is_digit ds then (0, False)
          else
            (let v = (if neg then - int (digits_value 0 ds) else int (digits_value 0 ds))
             in if 2 ^ 63 - 1 < v then (2 ^ 63 - 1, False)
                else if v < - (2 ^ 63) then (- (2 ^ 63), False)
                else (v, True)))"

text \<open>Go's decimal rendering of an \<open>int\<close> (\<open>strconv.Itoa\<close>, the \<open>%d\<close> verb).\<close>

definition itoa :: "int \<Rightarrow> string" where
  "itoa v = (if v < 0 then CHR ''-'' # decimal (nat (- v)) else decimal (nat v))"

type_synonym cli_result = "goerror option \<times> string list \<times> notes_repo \<times> coll"

text \<open>\<open>add <name> <text> [tag]\<close> (lines 80--92).\<close>

definition add_action :: "env \<Rightarrow> mongo_error option \<Rightarrow> string list \<Rightarrow> notes_repo \<Rightarrow> coll \<Rightarrow> cli_result" where
  "add_action en net args r c =
     (let nt = \<lparr>Name = args_get args 0, Text = args_get args 1, Tag = args_get args 2,
                Author = [], CreatedAt = UnixMilli (now en), ID = 0\<rparr>
      in case Add en net nt r c of
           (Inl e, r', c') \<Rightarrow> (Some e, [], r', c')
         | (Inr _, r', c') \<Rightarrow> (None, [], r', c'))"

text \<open>\<open>del\<close> (lines 98--105): the id is read from the second argument, the error of
  \<open>Atoi\<close> is dropped.\<close>

definition del_action :: "mongo_error option \<Rightarrow> string list \<Rightarrow> notes_repo \<Rightarrow> coll \<Rightarrow> cli_result" where
  "del_action net args r c =
     (let i = fst (atoi (args_get args 1))
      in case Delete net (word_of_int i) r c of
           (Inl e, c') \<Rightarrow> (Some e, [], r, c')
         | (Inr _, c') \<Rightarrow> (None, [], r, c'))"

text \<open>\<open>mine\<close> (lines 111--119): a failed \<open>user.Current()\<close> leaves \<open>current\<close> nil and
  \<open>current.Username\<close> panics; the note found is discarded.\<close>

definition mine_action :: "env \<Rightarrow> mongo_error option \<Rightarrow> notes_repo \<Rightarrow> coll \<Rightarrow> cli_result" where
  "mine_action en net r c =
     (case current_user en of
        None \<Rightarrow> (Some nil_deref, [], r, c)
      | Some author \<Rightarrow>
          (case ByAuthor net author r c of
             Inl e \<Rightarrow> (Some e, [], r, c)
           | Inr _ \<Rightarrow> (None, [], r, c)))"

text \<open>\<open>name <name>\<close> (lines 125--132): the text is printed before the error is looked
  at, so a failed lookup prints the empty text of \<open>Note{}\<close>; a panic inside \<open>ByName\<close>
  ends the process before the print.\<close>

definition name_action :: "mongo_error option \<Rightarrow> string list \<Rightarrow> notes_repo \<Rightarrow> coll \<Rightarrow> cli_result" where
  "name_action net args r c =
     (case ByName net (args_get args 0) r c of
        Inl (Panic p) \<Rightarrow> (Some (Panic p), [], r, c)
      | Inl e \<Rightarrow> (Some e, [Text zero_note], r, c)
      | Inr nt \<Rightarrow> (None, [Text nt], r, c))"

datatype command = CmdAdd | CmdDel | CmdMine | CmdName

text \<open>The commands with their names and aliases (lines 76--79, 94--97, 107--110, 121--124).\<close>

definition commands :: "(command \<times> string list) list" where
  "commands =
     [(CmdAdd, [''add'', ''a'']), (CmdDel, [''del'', ''d'']),
      (CmdMine, [''mine'', ''s'']), (CmdName, [''name'', ''n''])]"

definition lookup_command :: "string \<Rightarrow> command option" where
  "lookup_command s = map_option fst (find (\<lambda>(_, names). s \<in> set names) commands)"

text \<open>
  urfave/cli parses flags with Go's \<open>flag\<close> package, first in the program's arguments
  and then in the arguments of the command they name; parsing stops at the first
  argument that is shorter than two characters or does not start with \<open>-\<close>. A flag
  found there (\<open>-h\<close>, \<open>--help\<close>: the help text; any other: an error) and the built-in
  command \<open>help\<close>/\<open>h\<close> end the run inside the library, before any action. The
  invocations that reach an action with their arguments unchanged are the plain ones.
\<close>

definition no_flag :: "string \<Rightarrow> bool" where
  "no_flag a \<longleftrightarrow> length a < 2 \<or> hd a \<noteq> CHR ''-''"

definition plain_invocation :: "string list \<Rightarrow> bool" where
  "plain_invocation args \<longleftrightarrow>
     (case args of
        [] \<Rightarrow> True
      | a # rest \<Rightarrow>
          no_flag a \<and> a \<notin> {''help'', ''h''} \<and>
          (case (lookup_command a, rest) of (Some _, b # _) \<Rightarrow> no_flag b | _ \<Rightarrow> True))"

fun run_command :: "command \<Rightarrow> env \<Rightarrow> mongo_error option \<Rightarrow> string list \<Rightarrow>
    notes_repo \<Rightarrow> coll \<Rightarrow> cli_result" where
  "run_command CmdAdd en net args r c = add_action en net args r c"
| "run_command CmdDel en net args r c = del_action net args r c"
| "run_command CmdMine en net args r c = mine_action en net r c"
| "run_command CmdName en net args r c = name_action net args r c"

text \<open>
  Each command is one call of the repository interface followed by the presentation of
  its result: \<open>command_op\<close> is the call an action makes (for a process whose user is
  known), \<open>present\<close> the error it returns and the lines it prints for the result.
\<close>

definition command_op :: "env \<Rightarrow> command \<Rightarrow> string list \<Rightarrow> repo_op" where
  "command_op en cmd args =
     (case cmd of
        CmdAdd \<Rightarrow> OpAdd \<lparr>Name = args_get args 0, Text = args_get args 1, Tag = args_get args 2,
                          Author = [], CreatedAt = UnixMilli (now en), ID = 0\<rparr>
      | CmdDel \<Rightarrow> OpDelete (word_of_int (fst (atoi (args_get args 1))))
      | CmdMine \<Rightarrow> OpByAuthor (case current_user en of Some u \<Rightarrow> u | None \<Rightarrow> [])
      | CmdName \<Rightarrow> OpByName (args_get args 0))"

definition present :: "command \<Rightarrow> repo_result \<Rightarrow> goerror option \<times> string list" where
  "present cmd res =
     (case res of
        RUnit (Inl e) \<Rightarrow> (Some e, [])
      | RUnit (Inr _) \<Rightarrow> (None, [])
      | RNote (Inl (Panic p)) \<Rightarrow> (Some (Panic p), [])
      | RNote (Inl e) \<Rightarrow> (Some e, if cmd = CmdName then [Text zero_note] else [])
      | RNote (Inr nt) \<Rightarrow> (None, if cmd = CmdName then [Text nt] else [])
      | RNotes (Inl e) \<Rightarrow> (Some e, [])
      | RNotes (Inr _) \<Rightarrow> (None, []))"

subsection \<open>Reading numbers\<close>

lemma split_sign_digits:
  "list_all is_digit s \<Longrightarrow> s \<noteq> [] \<Longrightarrow> split_sign s = (False, s)"
  by (cases s) (auto simp: split_sign_def is_digit_def)

lemma atoi_decimal: "n < 2 ^ 63 \<Longrightarrow> atoi (decimal n) = (int n, True)"
  using decimal_is_digit [of n]
  by (simp add: atoi_def split_sign_digits digits_value_decimal)

lemma atoi_neg_decimal:
  "n \<le> 2 ^ 63 \<Longrightarrow> atoi (CHR ''-'' # decimal n) = (- int n, True)"
  using decimal_is_digit [of n]
  by (simp add: atoi_def split_sign_def digits_value_decimal)

lemma atoi_itoa: "- (2 ^ 63) \<le> v \<Longrightarrow> v < 2 ^ 63 \<Longrightarrow> atoi (itoa v) = (v, True)"
proof (cases "v < 0")
  case True
  assume "- (2 ^ 63) \<le> v"
  then have "nat (- v) \<le> 2 ^ 63" by (simp add: nat_le_iff)
  with True show ?thesis by (simp add: itoa_def atoi_neg_decimal)
next
  case False
  assume "v < 2 ^ 63"
  then have "nat v < 2 ^ 63" using False by (simp add: nat_less_iff)
  with False show ?thesis by (simp add: itoa_def atoi_decimal)
qed

lemma itoa_int [simp]: "itoa (int n) = decimal n"
  by (simp add: itoa_def)

lemma itoa_Suc [simp]: "itoa (1 + int n) = decimal (Suc n)"
  by (simp add: itoa_def nat_add_distrib)

lemma word_of_nat_mod32: "(word_of_nat (n mod 2 ^ 32) :: int32) = word_of_nat n"
  by (simp add: word_of_nat_eq_iff take_bit_eq_mod)

subsection \<open>Properties of the commands\<close>

text \<open>
  C27. Passing an \<open>int32\<close> id printed in decimal as the second argument of \<open>del\<close>
  deletes exactly that id: \<open>Atoi\<close> reads back what \<open>%d\<close> prints, and the
  conversion to \<open>int32\<close> returns the id.
\<close>

theorem del_itoa_roundtrip:
  "del_action net [x, itoa (sint i)] r c =
     (case Delete net i r c of
        (Inl e, c') \<Rightarrow> (Some e, [], r, c')
      | (Inr _, c') \<Rightarrow> (None, [], r, c'))"
proof -
  have "- (2 ^ 63) \<le> sint i" "sint i < 2 ^ 63"
    using sint_ge [of i] sint_lt [of i] by simp_all
  then have "atoi (itoa (sint i)) = (sint i, True)" by (rule atoi_itoa)
  moreover have "(word_of_int (sint i) :: int32) = i"
    by (metis scast_eq scast_id)
  ultimately show ?thesis by (simp add: del_action_def args_get_def)
qed

text \<open>
  C19. \<open>del\<close> reads the id from \<open>Args().Get(1)\<close>, the second argument: invoked as
  the usage \<open>del <id>\<close> suggests, with one argument, it parses the empty string, which
  \<open>Atoi\<close> turns into 0, and deletes the note with id 0 whatever the argument was.
\<close>

theorem del_ignores_single_argument:
  assumes "length args < 2"
  shows "del_action net args r c =
           (case Delete net 0 r c of
              (Inl e, c') \<Rightarrow> (Some e, [], r, c')
            | (Inr _, c') \<Rightarrow> (None, [], r, c'))"
proof -
  have "atoi [] = (0, False)" by (simp add: atoi_def split_sign_def)
  with assms show ?thesis by (simp add: del_action_def args_get_def)
qed

theorem del_ignores_single_argument_witness:
  "del_action None [''5''] \<lparr>collection = Some notes_handle, counter = 0\<rparr>
      \<lparr>docs = [[(''id'', BInt32 0)], [(''id'', BInt32 5)]], next_oid = 2\<rparr>
   = (None, [], \<lparr>collection = Some notes_handle, counter = 0\<rparr>,
      \<lparr>docs = [[(''id'', BInt32 5)]], next_oid = 2\<rparr>)"
proof -
  have "length [''5''] < 2" by simp
  then show ?thesis
    using del_ignores_single_argument [where args = "[''5'']" and net = None
        and r = "\<lparr>collection = Some notes_handle, counter = 0\<rparr>"
        and c = "\<lparr>docs = [[(''id'', BInt32 0)], [(''id'', BInt32 5)]], next_oid = 2\<rparr>"]
    by (simp add: Delete_def delete_one_def matches_def bval_eq_def)
qed

text \<open>
  C28. The id given to \<open>del\<close> is truncated to 32 bits by \<open>int32(id)\<close>: a decimal
  argument \<open>n\<close> deletes the same note as \<open>n mod 2^32\<close>.
\<close>

theorem del_id_wraps:
  assumes "n < 2 ^ 63"
  shows "del_action net [x, decimal n] r c = del_action net [x, decimal (n mod 2 ^ 32)] r c"
proof -
  have "n mod 2 ^ 32 < 2 ^ 63" by (rule le_less_trans [OF mod_less_eq_dividend assms])
  with assms show ?thesis
    by (simp add: del_action_def args_get_def atoi_decimal word_of_nat_mod32 [simplified])
qed
theorem del_id_wraps_witness:
  "del_action None [''x'', decimal 4294967296] \<lparr>collection = Some notes_handle, counter = 0\<rparr> empty_coll
   = del_action None [''x'', decimal 0] \<lparr>collection = Some notes_handle, counter = 0\<rparr> empty_coll"
  using del_id_wraps [where n = 4294967296 and net = None and x = "''x''"
      and r = "\<lparr>collection = Some notes_handle, counter = 0\<rparr>" and c = empty_coll]
  by simp

text \<open>
  C29. \<open>name <n>\<close> prints the text of the first stored note named \<open>n\<close> and succeeds;
  when there is none, or it cannot be decoded, it still prints a line, the empty text of
  \<open>Note{}\<close>, and then returns the error.
\<close>

theorem name_action_result:
  assumes "repr c ss" and "collection r \<noteq> None"
  shows "name_action None [n] r c =
           (case spec_find_name ss n of
              None \<Rightarrow> (Some (Errorf ''no documents by given filter''), [[]], r, c)
            | Some s \<Rightarrow>
                if id_fits s then (None, [stext s], r, c)
                else (Some (Wrapf ''show note by author'' (DecodeError ''overflows int32'')), [[]], r, c))"
  using ByName_refines [OF assms, of n]
  by (auto simp: name_action_def args_get_def find_result_def found_view_def read_view_def
      zero_note_def split: option.splits)

theorem name_action_result_witness:
  "name_action None [''shopping''] \<lparr>collection = Some notes_handle, counter = 0\<rparr> empty_coll =
     (Some (Errorf ''no documents by given filter''), [[]],
      \<lparr>collection = Some notes_handle, counter = 0\<rparr>, empty_coll)"
proof -
  have "repr empty_coll []" by (simp add: repr_def empty_coll_def)
  then show ?thesis
    using name_action_result [where c = empty_coll and ss = "[]" and n = "''shopping''"
        and r = "\<lparr>collection = Some notes_handle, counter = 0\<rparr>"]
    by (simp add: spec_find_name_def)
qed

text \<open>
  C30. \<open>mine\<close> (usage: show note from database) looks up a note of the process user
  and discards it: when the user has a readable note, the command succeeds and prints
  nothing.
\<close>

theorem mine_prints_nothing:
  assumes "repr c ss" and "collection r \<noteq> None" and "current_user en = Some u"
    and "spec_find_author ss u = Some s" and "id_fits s"
  shows "mine_action en None r c = (None, [], r, c)"
  using ByAuthor_refines [OF assms(1,2), of u] assms(3-5)
  by (simp add: mine_action_def find_result_def found_view_def)

theorem mine_prints_nothing_witness:
  "mine_action \<lparr>current_user = Some ''bob'', now = 0\<rparr> None
     \<lparr>collection = Some notes_handle, counter = 1\<rparr>
     \<lparr>docs = [(''_id'', BObjectID 0) # note_doc zero_note ''bob'' 0 0], next_oid = 1\<rparr>
   = (None, [], \<lparr>collection = Some notes_handle, counter = 1\<rparr>,
      \<lparr>docs = [(''_id'', BObjectID 0) # note_doc zero_note ''bob'' 0 0], next_oid = 1\<rparr>)"
proof -
  let ?s = "created_note zero_note ''bob'' 0 0"
  have "repr \<lparr>docs = [(''_id'', BObjectID 0) # note_doc zero_note ''bob'' 0 0], next_oid = 1\<rparr> [?s]"
    by (simp add: repr_def stored_as_def spec_doc_created)
  moreover have "spec_find_author [?s] ''bob'' = Some ?s"
    by (simp add: spec_find_author_def created_note_def)
  moreover have "id_fits ?s" by (simp add: id_fits_def created_note_def fits_int32_def)
  ultimately show ?thesis
    using mine_prints_nothing [where en = "\<lparr>current_user = Some ''bob'', now = 0\<rparr>"
        and u = "''bob''" and r = "\<lparr>collection = Some notes_handle, counter = 1\<rparr>"]
    by simp
qed

subsection \<open>Commands through the repository interface\<close>

lemma run_command_repo_step:
  assumes "current_user en \<noteq> None"
  shows "run_command cmd en net args r c =
           (case repo_step en net (command_op en cmd args) (r, c) of
              (res, r', c') \<Rightarrow> (fst (present cmd res), snd (present cmd res), r', c'))"
proof (cases cmd)
  case CmdAdd
  then show ?thesis
    by (auto simp: command_op_def present_def add_action_def Let_def split: prod.splits sum.splits)
next
  case CmdDel
  then show ?thesis
    by (auto simp: command_op_def present_def del_action_def Let_def split: prod.splits sum.splits)
next
  case CmdMine
  with assms show ?thesis
    by (auto simp: command_op_def present_def mine_action_def split: sum.splits goerror.splits)
next
  case CmdName
  then show ?thesis
    by (auto simp: command_op_def present_def name_action_def split: sum.splits goerror.splits)
qed

end
