(* ===== verification/Tui.thy ===== *)
theory Tui
  imports Cli
begin

text \<open>
  The terminal list picker of \<open>src/cmd/main.go\<close>: the default action of the CLI
  (lines 49--73) loads all notes and shows their names in a list; \<open>model.Update\<close>
  (lines 197--221) handles the window size, \<open>ctrl+c\<close> and \<open>enter\<close> and hands every
  other message to the list widget; \<open>model.View\<close> (lines 178--195) shows the chosen
  note's text, a farewell, or the list, whose lines \<open>itemDelegate.Render\<close>
  (lines 150--166) draws. The bubbletea program delivers messages one at a time until a
  command \<open>tea.Quit\<close> comes back, then draws the view a last time.

  The list widget (\<open>bubbles/list\<close>) is a library; its model keeps the items, the
  global index of the cursor and the width, and its key handling is modelled for the
  keys that move the cursor by one or to an end (\<open>up\<close>/\<open>k\<close>, \<open>down\<close>/\<open>j\<close>,
  \<open>home\<close>/\<open>g\<close>, \<open>end\<close>/\<open>G\<close>) and the quit keys \<open>q\<close>/\<open>esc\<close>; paging keys,
  styles, title, status bar and help are not modelled (paging moves the cursor within
  the same bounds). Styles (lipgloss) are dropped from the rendered strings.
\<close>

datatype msg =
    WindowSizeMsg nat nat
  | KeyMsg string
  | OtherMsg

datatype cmd = NoCmd | QuitCmd

record list_model =
  items :: "string list"
  cursor :: nat
  width :: nat

record tui_model =
  list_m :: list_model
  choice :: string
  quitting :: bool

definition selected_item :: "list_model \<Rightarrow> string option" where
  "selected_item l = (if cursor l < length (items l) then Some (items l ! cursor l) else None)"

definition list_widget_update :: "msg \<Rightarrow> list_model \<Rightarrow> list_model \<times> cmd" where
  "list_widget_update m l =
     (case m of
        KeyMsg k \<Rightarrow>
          if k \<in> {''up'', ''k''} then (l\<lparr>cursor := cursor l - 1\<rparr>, NoCmd)
          else if k \<in> {''down'', ''j''} then
            (l\<lparr>cursor := (if Suc (cursor l) < length (items l) then Suc (cursor l) else cursor l)\<rparr>, NoCmd)
          else if k \<in> {''home'', ''g''} then (l\<lparr>cursor := 0\<rparr>, NoCmd)
          else if k \<in> {''end'', ''G''} then (l\<lparr>cursor := length (items l) - 1\<rparr>, NoCmd)
          else if k \<in> {''q'', ''esc''} then (l, QuitCmd)
          else (l, NoCmd)
      | _ \<Rightarrow> (l, NoCmd))"

text \<open>\<open>model.Update\<close> (lines 197--221).\<close>

fun update :: "msg \<Rightarrow> tui_model \<Rightarrow> tui_model \<times> cmd" where
  "update (WindowSizeMsg w h) m = (m\<lparr>list_m := (list_m m)\<lparr>width := w\<rparr>\<rparr>, NoCmd)"
| "update (KeyMsg k) m =
     (if k = ''ctrl+c'' then (m\<lparr>quitting := True\<rparr>, QuitCmd)
      else if k = ''enter'' then
        ((case selected_item (list_m m) of Some i \<Rightarrow> m\<lparr>choice := i\<rparr> | None \<Rightarrow> m), QuitCmd)
      else (case list_widget_update (KeyMsg k) (list_m m) of (l, c) \<Rightarrow> (m\<lparr>list_m := l\<rparr>, c)))"
| "update OtherMsg m = (case list_widget_update OtherMsg (list_m m) of (l, c) \<Rightarrow> (m\<lparr>list_m := l\<rparr>, c))"

text \<open>\<open>itemDelegate.Render\<close> (lines 150--166), without styles.\<close>

definition render_item :: "nat \<Rightarrow> nat \<Rightarrow> string \<Rightarrow> string" where
  "render_item sel index i =
     (let str = itoa (int (index + 1)) @ ''. '' @ i
      in if index = sel then ''> '' @ str else str)"

datatype screen = QuitText string | ListScreen "string list"

definition list_view :: "list_model \<Rightarrow> string list" where
  "list_view l = map (\<lambda>(index, i). render_item (cursor l) index i) (enumerate 0 (items l))"

definition farewell :: string where
  "farewell = ''Not hungry? That'' @ [CHR 0xE2, CHR 0x80, CHR 0x99] @ ''s cool.''"

text \<open>
  \<open>model.View\<close> (lines 178--195): the list of all notes it loads is never used; the
  error of \<open>ByName\<close> is dropped, leaving \<open>Note{}\<close>. A panic of a repository call
  (nil collection) ends the process.
\<close>

definition view :: "mongo_error option \<Rightarrow> notes_repo \<Rightarrow> coll \<Rightarrow> tui_model \<Rightarrow> goerror + screen" where
  "view net r c m =
     (case All_notes net r c of
        Inl (Panic p) \<Rightarrow> Inl (Panic p)
      | _ \<Rightarrow>
          if choice m \<noteq> [] then
            (case ByName net (choice m) r c of
               Inl (Panic p) \<Rightarrow> Inl (Panic p)
             | Inl _ \<Rightarrow> Inr (QuitText (Text zero_note))
             | Inr nt \<Rightarrow> Inr (QuitText (Text nt)))
          else if quitting m then Inr (QuitText farewell)
          else Inr (ListScreen (list_view (list_m m))))"

text \<open>The default action (lines 49--73): the names of all notes, width 20.\<close>

definition start_model :: "mongo_error option \<Rightarrow> notes_repo \<Rightarrow> coll \<Rightarrow> goerror + tui_model" where
  "start_model net r c =
     (let mk = (\<lambda>ns. \<lparr>list_m = \<lparr>items = map Name ns, cursor = 0, width = 20\<rparr>,
                     choice = [], quitting = False\<rparr>)
      in case All_notes net r c of
           Inl (Panic p) \<Rightarrow> Inl (Panic p)
         | Inl _ \<Rightarrow> Inr (mk [])
         | Inr ns \<Rightarrow> Inr (mk ns))"

text \<open>The cursor of the list is on an item, or at 0 in an empty list.\<close>

definition cursor_ok :: "list_model \<Rightarrow> bool" where
  "cursor_ok l \<longleftrightarrow> cursor l < length (items l) \<or> (items l = [] \<and> cursor l = 0)"

text \<open>The bubbletea event loop: messages are handled in order until one quits.\<close>

fun run_tea :: "msg list \<Rightarrow> tui_model \<Rightarrow> tui_model \<times> bool" where
  "run_tea [] m = (m, False)"
| "run_tea (x # xs) m =
     (case update x m of (m', QuitCmd) \<Rightarrow> (m', True) | (m', NoCmd) \<Rightarrow> run_tea xs m')"

definition tui_action :: "mongo_error option \<Rightarrow> msg list \<Rightarrow> notes_repo \<Rightarrow> coll \<Rightarrow> goerror + screen" where
  "tui_action net input r c =
     (case start_model net r c of
        Inl e \<Rightarrow> Inl e
      | Inr m \<Rightarrow> view net r c (fst (run_tea input m)))"

text \<open>
  The program as bubbletea runs it: \<open>model.Init\<close> (lines 174--176) returns no command,
  then messages arrive one at a time from an unbounded input stream (\<open>inp i\<close> is the
  \<open>i\<close>-th message) until \<open>Update\<close> returns \<open>tea.Quit\<close>. Nothing bounds the number
  of messages before that, so the loop is a \<open>partial_function (option)\<close>: \<open>None\<close> is
  a program that never returns. It returns the final model and the number of messages
  read. Bubbletea's \<open>tea.Quit\<close> is a command that sends a quit message back
  through the message channel, so key presses already queued behind a quit key may
  still reach \<open>Update\<close>; the loop here stops at the first quit key, and its theorems
  speak only of whether the program returns, not of how many messages it reads.
\<close>

definition Init :: "tui_model \<Rightarrow> cmd" where
  "Init m = NoCmd"

partial_function (option) tea_loop :: "(nat \<Rightarrow> msg) \<Rightarrow> nat \<Rightarrow> tui_model \<Rightarrow> (tui_model \<times> nat) option" where
  "tea_loop inp i m =
     (case update (inp i) m of
        (m', QuitCmd) \<Rightarrow> Some (m', Suc i)
      | (m', NoCmd) \<Rightarrow> tea_loop inp (Suc i) m')"

definition tea_run :: "(nat \<Rightarrow> msg) \<Rightarrow> tui_model \<Rightarrow> (tui_model \<times> nat) option" where
  "tea_run inp m = (case Init m of QuitCmd \<Rightarrow> Some (m, 0) | NoCmd \<Rightarrow> tea_loop inp 0 m)"

text \<open>The messages on which \<open>Update\<close> returns \<open>tea.Quit\<close>.\<close>

fun quit_msg :: "msg \<Rightarrow> bool" where
  "quit_msg (KeyMsg k) \<longleftrightarrow> k \<in> {''ctrl+c'', ''enter'', ''q'', ''esc''}"
| "quit_msg _ \<longleftrightarrow> False"

subsection \<open>The list widget and the update function\<close>

lemma list_widget_update_items: "items (fst (list_widget_update x l)) = items l"
  by (cases x) (simp_all add: list_widget_update_def)

lemma list_widget_update_cursor_ok: "cursor_ok l \<Longrightarrow> cursor_ok (fst (list_widget_update x l))"
proof (cases x)
  case (KeyMsg k)
  assume ok: "cursor_ok l"
  have "cursor l - 1 < length (items l) \<or> (items l = [] \<and> cursor l - 1 = 0)"
    using ok by (auto simp: cursor_ok_def)
  moreover have "(if Suc (cursor l) < length (items l) then Suc (cursor l) else cursor l) < length (items l)
                 \<or> items l = [] \<and> (if Suc (cursor l) < length (items l) then Suc (cursor l) else cursor l) = 0"
    using ok by (auto simp: cursor_ok_def)
  moreover have "length (items l) - 1 < length (items l) \<or> items l = [] \<and> length (items l) - 1 = 0"
    by (cases "items l") auto
  ultimately show ?thesis
    using ok KeyMsg by (simp add: list_widget_update_def cursor_ok_def Let_def)
qed (simp_all add: list_widget_update_def)

lemma update_list_ok:
  assumes "cursor_ok (list_m m)" "update x m = (m', c)"
  shows "cursor_ok (list_m m') \<and> items (list_m m') = items (list_m m)"
proof (cases x)
  case (WindowSizeMsg w h)
  with assms show ?thesis by (auto simp: cursor_ok_def)
next
  case (KeyMsg k)
  show ?thesis
  proof (cases "k = ''ctrl+c'' \<or> k = ''enter''")
    case True
    then have "list_m m' = list_m m"
      using assms(2) KeyMsg by (cases "selected_item (list_m m)") auto
    with assms(1) show ?thesis by simp
  next
    case False
    then have "list_m m' = fst (list_widget_update (KeyMsg k) (list_m m))"
      using assms(2) KeyMsg by (auto split: prod.splits)
    with assms(1) show ?thesis by (simp add: list_widget_update_cursor_ok list_widget_update_items)
  qed
next
  case OtherMsg
  then have "list_m m' = fst (list_widget_update OtherMsg (list_m m))"
    using assms(2) by (auto split: prod.splits)
  with assms(1) show ?thesis by (simp add: list_widget_update_cursor_ok list_widget_update_items)
qed

lemma run_tea_downs_enter:
  "cursor (list_m m) = j \<Longrightarrow> j + i < length (items (list_m m)) \<Longrightarrow>
   run_tea (replicate i (KeyMsg ''down'') @ [KeyMsg ''enter'']) m =
     (m\<lparr>list_m := (list_m m)\<lparr>cursor := j + i\<rparr>, choice := items (list_m m) ! (j + i)\<rparr>, True)"
proof (induction i arbitrary: j m)
  case 0
  then show ?case by (simp add: selected_item_def)
next
  case (Suc i)
  let ?m = "m\<lparr>list_m := (list_m m)\<lparr>cursor := Suc j\<rparr>\<rparr>"
  have "run_tea (replicate i (KeyMsg ''down'') @ [KeyMsg ''enter'']) ?m =
          (?m\<lparr>list_m := (list_m ?m)\<lparr>cursor := Suc j + i\<rparr>, choice := items (list_m ?m) ! (Suc j + i)\<rparr>, True)"
    using Suc.prems by (intro Suc.IH) simp_all
  with Suc.prems show ?case by (simp add: list_widget_update_def)
qed

lemma All_notes_not_panic: "collection r \<noteq> None \<Longrightarrow> All_notes net r c \<noteq> Inl (Panic p)"
  by (auto simp: All_notes_def split: option.splits sum.splits)

lemma ByName_not_panic: "collection r \<noteq> None \<Longrightarrow> ByName net n r c \<noteq> Inl (Panic p)"
  by (auto simp: ByName_def split: option.splits sum.splits)

lemma view_live:
  assumes "collection r \<noteq> None"
  shows "view net r c m =
           (if choice m \<noteq> [] then
              (case ByName net (choice m) r c of
                 Inl _ \<Rightarrow> Inr (QuitText (Text zero_note))
               | Inr nt \<Rightarrow> Inr (QuitText (Text nt)))
            else if quitting m then Inr (QuitText farewell)
            else Inr (ListScreen (list_view (list_m m))))"
proof -
  have a: "\<And>p. All_notes net r c \<noteq> Inl (Panic p)" using assms by (rule All_notes_not_panic)
  have b: "\<And>p. ByName net (choice m) r c \<noteq> Inl (Panic p)" using assms by (rule ByName_not_panic)
  show ?thesis
  proof (cases "All_notes net r c")
    case (Inl e)
    with a show ?thesis
      using b by (cases e; cases "ByName net (choice m) r c") (auto simp: view_def split: goerror.splits)
  next
    case (Inr ns)
    then show ?thesis
      using b by (cases "ByName net (choice m) r c") (auto simp: view_def split: goerror.splits)
  qed
qed

subsection \<open>Properties of the list picker\<close>

text \<open>
  C31. Whatever messages the program receives, the list's items stay those loaded at the
  start and its cursor stays on an item (at 0 when the list is empty), so \<open>enter\<close>
  always selects a loaded note name when there is one.
\<close>

theorem run_tea_cursor_ok:
  assumes "cursor_ok (list_m m)"
  shows "cursor_ok (list_m (fst (run_tea xs m))) \<and> items (list_m (fst (run_tea xs m))) = items (list_m m)"
  using assms
proof (induction xs arbitrary: m)
  case Nil
  then show ?case by simp
next
  case (Cons x xs)
  obtain m' c where u: "update x m = (m', c)" by (metis prod.exhaust)
  with Cons.prems have "cursor_ok (list_m m') \<and> items (list_m m') = items (list_m m)"
    by (rule update_list_ok)
  with Cons.IH u show ?case by (cases c) auto
qed

theorem run_tea_cursor_ok_witness:
  "cursor_ok (list_m (fst (run_tea [KeyMsg ''down'', KeyMsg ''down'', KeyMsg ''down'', KeyMsg ''up'']
      \<lparr>list_m = \<lparr>items = [''a'', ''b''], cursor = 0, width = 20\<rparr>, choice = [], quitting = False\<rparr>)))
   \<and> items (list_m (fst (run_tea [KeyMsg ''down'', KeyMsg ''down'', KeyMsg ''down'', KeyMsg ''up'']
      \<lparr>list_m = \<lparr>items = [''a'', ''b''], cursor = 0, width = 20\<rparr>, choice = [], quitting = False\<rparr>)))
      = [''a'', ''b'']"
proof -
  have "cursor_ok \<lparr>items = [''a'', ''b''], cursor = 0, width = 20\<rparr>" by (simp add: cursor_ok_def)
  then show ?thesis
    using run_tea_cursor_ok [where m = "\<lparr>list_m = \<lparr>items = [''a'', ''b''], cursor = 0, width = 20\<rparr>,
        choice = [], quitting = False\<rparr>" and xs = "[KeyMsg ''down'', KeyMsg ''down'', KeyMsg ''down'', KeyMsg ''up'']"]
    by simp
qed

text \<open>
  C32. When a note was chosen but looking it up by name fails, the picker does not report
  the error: it shows an empty text and the process ends normally.
\<close>

theorem view_hides_lookup_error:
  assumes "collection r \<noteq> None" and "choice m \<noteq> []" and "ByName net (choice m) r c = Inl e"
  shows "view net r c m = Inr (QuitText [])"
  using view_live [OF assms(1)] assms(2,3) by (simp add: zero_note_def)
theorem view_hides_lookup_error_witness:
  "view (Some (NetworkError ''timeout'')) \<lparr>collection = Some notes_handle, counter = 0\<rparr> empty_coll
     \<lparr>list_m = \<lparr>items = [''shopping''], cursor = 0, width = 20\<rparr>, choice = ''shopping'', quitting = False\<rparr>
   = Inr (QuitText [])"
proof -
  have "ByName (Some (NetworkError ''timeout'')) ''shopping'' \<lparr>collection = Some notes_handle, counter = 0\<rparr>
          empty_coll = Inl (Wrapf ''show note by author'' (NetworkError ''timeout''))"
    by (simp add: ByName_def find_one_def single_decode_def)
  then show ?thesis
    using view_hides_lookup_error [where r = "\<lparr>collection = Some notes_handle, counter = 0\<rparr>"
        and m = "\<lparr>list_m = \<lparr>items = [''shopping''], cursor = 0, width = 20\<rparr>, choice = ''shopping'', quitting = False\<rparr>"
        and net = "Some (NetworkError ''timeout'')" and c = empty_coll]
    by simp
qed

subsection \<open>The event loop over a message stream\<close>

lemma update_quit_iff: "snd (update x m) = QuitCmd \<longleftrightarrow> quit_msg x"
  by (cases x) (simp_all add: list_widget_update_def split: option.splits)

lemma update_cases:
  obtains m' where "update x m = (m', QuitCmd)" "quit_msg x"
  | m' where "update x m = (m', NoCmd)" "\<not> quit_msg x"
  by (metis cmd.exhaust prod.collapse update_quit_iff cmd.distinct(1))

lemma tea_loop_quit: "update (inp i) m = (m', QuitCmd) \<Longrightarrow> tea_loop inp i m = Some (m', Suc i)"
  by (subst tea_loop.simps) simp

lemma tea_loop_cont: "update (inp i) m = (m', NoCmd) \<Longrightarrow> tea_loop inp i m = tea_loop inp (Suc i) m'"
  by (subst tea_loop.simps) simp

lemma tea_loop_quit_within: "quit_msg (inp (i + d)) \<Longrightarrow> \<exists>y. tea_loop inp i m = Some y"
proof (induction d arbitrary: i m)
  case 0
  then have "snd (update (inp i) m) = QuitCmd" by (simp add: update_quit_iff)
  then show ?case by (cases "update (inp i) m") (simp add: tea_loop_quit)
next
  case (Suc d)
  show ?case
  proof (cases rule: update_cases [where x = "inp i" and m = m])
    case (1 m')
    then show ?thesis by (simp add: tea_loop_quit)
  next
    case (2 m')
    have "\<exists>y. tea_loop inp (Suc i) m' = Some y"
      using Suc.prems by (intro Suc.IH) simp
    with 2 show ?thesis by (simp add: tea_loop_cont)
  qed
qed

lemma tea_loop_returns_quit:
  assumes ret: "tea_loop inp i m = Some y"
  shows "\<exists>k\<ge>i. quit_msg (inp k)"
proof (rule tea_loop.raw_induct [where P = "\<lambda>inp i m y. \<exists>k\<ge>i. quit_msg (inp k)", OF _ ret])
  fix f inp i m y
  assume IH: "\<And>inp i m y. f inp i m = Some y \<Longrightarrow> \<exists>k\<ge>i. quit_msg (inp k)"
    and eq: "(case update (inp i) m of (m', QuitCmd) \<Rightarrow> Some (m', Suc i)
              | (m', NoCmd) \<Rightarrow> f inp (Suc i) m') = Some y"
  show "\<exists>k\<ge>i. quit_msg (inp k)"
  proof (cases rule: update_cases [where x = "inp i" and m = m])
    case (1 m')
    then show ?thesis by blast
  next
    case (2 m')
    with eq have "f inp (Suc i) m' = Some y" by simp
    then obtain k where "k \<ge> Suc i" "quit_msg (inp k)" using IH by blast
    then show ?thesis by (intro exI [of _ k]) simp
  qed
qed

text \<open>
  C12. The picker returns if and only if a quit key (\<open>ctrl+c\<close>, \<open>enter\<close>, \<open>q\<close>
  or \<open>esc\<close>) eventually arrives; on any other input it waits forever.
\<close>

theorem tea_run_returns_iff_quit:
  "(\<exists>y. tea_run inp m = Some y) \<longleftrightarrow> (\<exists>k. quit_msg (inp k))"
proof
  assume "\<exists>y. tea_run inp m = Some y"
  then show "\<exists>k. quit_msg (inp k)"
    by (auto simp: tea_run_def Init_def dest: tea_loop_returns_quit)
next
  assume "\<exists>k. quit_msg (inp k)"
  then obtain k where "quit_msg (inp (0 + k))" by auto
  then have "\<exists>y. tea_loop inp 0 m = Some y" by (rule tea_loop_quit_within)
  then show "\<exists>y. tea_run inp m = Some y" by (simp add: tea_run_def Init_def)
qed

theorem tea_run_returns_iff_quit_witness:
  "(\<exists>y. tea_run (\<lambda>k. if k = 3 then KeyMsg ''esc'' else OtherMsg)
        \<lparr>list_m = \<lparr>items = [], cursor = 0, width = 20\<rparr>, choice = [], quitting = False\<rparr> = Some y)
   \<and> tea_run (\<lambda>k. OtherMsg) \<lparr>list_m = \<lparr>items = [], cursor = 0, width = 20\<rparr>, choice = [], quitting = False\<rparr> = None"
proof -
  have a: "\<exists>k. quit_msg ((\<lambda>k. if k = 3 then KeyMsg ''esc'' else OtherMsg) k)"
    by (intro exI [of _ 3]) simp
  have b: "\<not> (\<exists>k. quit_msg ((\<lambda>k::nat. OtherMsg) k))" by simp
  show ?thesis
    using a b tea_run_returns_iff_quit [where inp = "\<lambda>k. if k = 3 then KeyMsg ''esc'' else OtherMsg"
        and m = "\<lparr>list_m = \<lparr>items = [], cursor = 0, width = 20\<rparr>, choice = [], quitting = False\<rparr>"]
      tea_run_returns_iff_quit [where inp = "\<lambda>k. OtherMsg"
        and m = "\<lparr>list_m = \<lparr>items = [], cursor = 0, width = 20\<rparr>, choice = [], quitting = False\<rparr>"]
    by (metis not_Some_eq)
qed

text \<open>
  C33. Only \<open>ctrl+c\<close> says goodbye: it sets \<open>quitting\<close> and the last view is the
  farewell, while \<open>q\<close> and \<open>esc\<close> quit through the list widget, leave
  \<open>quitting\<close> unset, and the last view is the list again.
\<close>

theorem quit_keys_view:
  assumes "collection r \<noteq> None" and "choice m = []" and "\<not> quitting m"
    and "k \<in> {''q'', ''esc''}"
  shows "update (KeyMsg ''ctrl+c'') m = (m\<lparr>quitting := True\<rparr>, QuitCmd)
    \<and> view net r c (m\<lparr>quitting := True\<rparr>) = Inr (QuitText farewell)
    \<and> update (KeyMsg k) m = (m, QuitCmd)
    \<and> view net r c m = Inr (ListScreen (list_view (list_m m)))"
  using assms view_live [OF assms(1)] by (auto simp: list_widget_update_def)

theorem quit_keys_view_witness:
  "view None \<lparr>collection = Some notes_handle, counter = 0\<rparr> empty_coll
     (fst (update (KeyMsg ''ctrl+c'') \<lparr>list_m = \<lparr>items = [''a''], cursor = 0, width = 20\<rparr>, choice = [], quitting = False\<rparr>))
     = Inr (QuitText farewell)
   \<and> view None \<lparr>collection = Some notes_handle, counter = 0\<rparr> empty_coll
     (fst (update (KeyMsg ''esc'') \<lparr>list_m = \<lparr>items = [''a''], cursor = 0, width = 20\<rparr>, choice = [], quitting = False\<rparr>))
     = Inr (ListScreen [''> 1. a''])"
proof -
  have "''esc'' \<in> {''q'', ''esc''}" by simp
  then show ?thesis
    using quit_keys_view [where r = "\<lparr>collection = Some notes_handle, counter = 0\<rparr>" and k = "''esc''"
        and m = "\<lparr>list_m = \<lparr>items = [''a''], cursor = 0, width = 20\<rparr>, choice = [], quitting = False\<rparr>"
        and net = None and c = empty_coll]
    by (simp add: list_view_def render_item_def decimal.simps)
qed

text \<open>
  C16. A note whose name is empty can never be opened: \<open>enter\<close> on it sets the choice to
  the empty string, which \<open>View\<close> reads as "nothing chosen", so the program ends by
  drawing the list again instead of the note's text.
\<close>

theorem empty_name_never_opens:
  assumes "collection r \<noteq> None" and "selected_item (list_m m) = Some []" and "\<not> quitting m"
  shows "update (KeyMsg ''enter'') m = (m\<lparr>choice := []\<rparr>, QuitCmd)
    \<and> view net r c (m\<lparr>choice := []\<rparr>) = Inr (ListScreen (list_view (list_m m)))"
  using assms view_live [OF assms(1)] by simp

theorem empty_name_never_opens_witness:
  "update (KeyMsg ''enter'') \<lparr>list_m = \<lparr>items = [[]], cursor = 0, width = 20\<rparr>, choice = [], quitting = False\<rparr>
     = (\<lparr>list_m = \<lparr>items = [[]], cursor = 0, width = 20\<rparr>, choice = [], quitting = False\<rparr>, QuitCmd)
   \<and> view None \<lparr>collection = Some notes_handle, counter = 0\<rparr> empty_coll
       \<lparr>list_m = \<lparr>items = [[]], cursor = 0, width = 20\<rparr>, choice = [], quitting = False\<rparr>
     = Inr (ListScreen [''> 1. ''])"
proof -
  have "selected_item \<lparr>items = [[]], cursor = 0, width = 20\<rparr> = Some []" by (simp add: selected_item_def)
  then show ?thesis
    using empty_name_never_opens [where r = "\<lparr>collection = Some notes_handle, counter = 0\<rparr>"
        and m = "\<lparr>list_m = \<lparr>items = [[]], cursor = 0, width = 20\<rparr>, choice = [], quitting = False\<rparr>"
        and net = None and c = empty_coll]
    by (simp add: list_view_def render_item_def decimal.simps)
qed

end
