(* ===== verification/Process.thy ===== *)
theory Process
  imports Tui
begin

text \<open>
  One run of the program of \<open>src/cmd/main.go\<close> as a process, and the database that
  runs of it leave behind. \<open>main_process\<close> is the package initialisation and
  \<open>main\<close> (lines 32--45); \<open>cli_reachable\<close> holds for every collection that a
  sequence of processes, with any users, clocks, arguments, key presses and MongoDB
  faults, can produce from an empty collection; \<open>sys_run\<close> interleaves the list picker
  of one process with runs of other processes on the same collection. The lemmas show
  what such a database holds (documents of the note schema, all with id 0) and what
  the picker shows when the database changes under it.
\<close>

definition bob_env :: env where
  "bob_env = \<lparr>current_user = Some ''bob'', now = 1700000000000\<rparr>"

definition fresh_repo :: notes_repo where
  "fresh_repo = NewNotesRepository (Some notes_handle) 0"

text \<open>
  The process of \<open>src/cmd/main.go\<close> (lines 32--45): the package variables connect to
  MongoDB, ignoring the error (\<open>collection\<close> stays nil), and build the repository with
  the counter 0; \<open>main\<close> runs the CLI on the arguments and exits through
  \<open>log.Fatal\<close> (status 1) on an error; a panic exits with status 2. The process
  prints the lines of the command, or the last screen of the list picker.
\<close>

definition screen_lines :: "screen \<Rightarrow> string list" where
  "screen_lines s = (case s of QuitText t \<Rightarrow> [t] | ListScreen ls \<Rightarrow> ls)"

definition exit_status :: "goerror option \<Rightarrow> nat" where
  "exit_status e = (case e of None \<Rightarrow> 0 | Some (Panic _) \<Rightarrow> 2 | Some _ \<Rightarrow> 1)"

definition main_process :: "env \<Rightarrow> mongo_error option \<Rightarrow> mongo_error option \<Rightarrow> mongo_error option \<Rightarrow>
    string list \<Rightarrow> msg list \<Rightarrow> coll \<Rightarrow> nat \<times> string list \<times> coll" where
  "main_process en connect ping net args input c =
     (let h = (case init_mongo_client connect ping of Inl _ \<Rightarrow> None | Inr h \<Rightarrow> Some h);
          r = NewNotesRepository h 0
      in case (case args of [] \<Rightarrow> None | a # _ \<Rightarrow> lookup_command a) of
           Some cmd \<Rightarrow>
             (case run_command cmd en net (tl args) r c of (e, out, _, c') \<Rightarrow> (exit_status e, out, c'))
         | None \<Rightarrow>
             (case tui_action net input r c of
                Inl e \<Rightarrow> (exit_status (Some e), [], c)
              | Inr scr \<Rightarrow> (0, screen_lines scr, c)))"

text \<open>
  The database after a sequence of processes: every collection reachable from an empty
  one by runs of \<open>main_process\<close>, whatever their users, clocks, arguments, key
  presses and MongoDB faults.
\<close>

inductive cli_reachable :: "coll \<Rightarrow> bool" where
  start: "cli_reachable empty_coll"
| step: "cli_reachable c \<Longrightarrow> main_process en connect ping net args input c = (st, out, c') \<Longrightarrow>
         cli_reachable c'"

text \<open>
  The BSON types of a document, and the schema of a note document as \<open>Add\<close> writes it
  with an id that fits in int32 and the driver completes it with an \<open>_id\<close>.
\<close>

datatype bkind = KString | KInt32 | KInt64 | KDateTime | KObjectID

fun bkind_of :: "bval \<Rightarrow> bkind" where
  "bkind_of (BString _) = KString"
| "bkind_of (BInt32 _) = KInt32"
| "bkind_of (BInt64 _) = KInt64"
| "bkind_of (BDateTime _) = KDateTime"
| "bkind_of (BObjectID _) = KObjectID"

definition note_schema :: "(string \<times> bkind) list" where
  "note_schema =
     [(''_id'', KObjectID), (''name'', KString), (''text'', KString), (''tag'', KString),
      (''author'', KString), (''created_at'', KDateTime), (''id'', KInt32)]"

definition doc_typed :: "doc \<Rightarrow> bool" where
  "doc_typed d \<longleftrightarrow> map (\<lambda>(k, v). (k, bkind_of v)) d = note_schema"
text \<open>
  The list picker of one process while other processes write the same database: the
  picker's messages and the runs of other processes interleave in any order, until
  the picker quits. The picker keeps the list it loaded at its start; the other
  processes change the collection that its final \<open>View\<close> reads.
\<close>

datatype sys_event =
    PickerMsg msg
  | OtherProcess env "mongo_error option" "mongo_error option" "mongo_error option" "string list" "msg list"

fun sys_run :: "sys_event list \<Rightarrow> tui_model \<Rightarrow> coll \<Rightarrow> tui_model \<times> bool \<times> coll" where
  "sys_run [] m c = (m, False, c)"
| "sys_run (PickerMsg x # es) m c =
     (case update x m of (m', QuitCmd) \<Rightarrow> (m', True, c) | (m', NoCmd) \<Rightarrow> sys_run es m' c)"
| "sys_run (OtherProcess en connect ping net args input # es) m c =
     sys_run es m (snd (snd (main_process en connect ping net args input c)))"

section \<open>What a process does to the collection\<close>

text \<open>The definitions a concrete run of a process unfolds to, and those of a stored note.\<close>

lemmas cli_run_simps = main_process_def init_mongo_client_def lookup_command_def commands_def
  Let_def NewNotesRepository_def exit_status_def args_get_def

lemmas add_doc_simps = add_action_def Add_def note_doc_def encode_int_def fits_int32_def

lemmas plain_simps = plain_invocation_def no_flag_def lookup_command_def commands_def

lemma Add_no_user: "current_user en = None \<Longrightarrow> Add en net nt r c = (Inl nil_deref, r, c)"
  by (simp add: Add_def)

lemma list_all_spec_delete: "list_all P ss \<Longrightarrow> list_all P (spec_delete ss i)"
  by (auto simp: spec_delete_def list_all_iff dest: subsetD [OF set_remove_first])

lemma run_command_no_collection:
  "collection r = None \<Longrightarrow> run_command cmd en net xs r c = (Some nil_deref, [], r, c)"
  by (cases cmd)
    (auto simp: add_action_def Add_def del_action_def Delete_def mine_action_def ByAuthor_def
      name_action_def ByName_def nil_deref_def split: option.splits)

lemma tui_action_no_collection: "collection r = None \<Longrightarrow> tui_action net input r c = Inl nil_deref"
  by (simp add: tui_action_def start_model_def All_notes_def nil_deref_def)

text \<open>A command keeps the collection a representation of notes that satisfy \<open>P\<close>, when
  every note it may create satisfies \<open>P\<close>.\<close>

lemma run_command_repr:
  assumes "repr c ss" "collection r \<noteq> None" "list_all P ss"
    and "\<And>nt u. P (created_note nt u (now en) (counter r))"
    and "run_command cmd en net args r c = (e, out, r', c')"
  shows "\<exists>ss'. repr c' ss' \<and> list_all P ss'"
proof (cases cmd)
  case CmdAdd
  let ?nt = "\<lparr>Name = args_get args 0, Text = args_get args 1, Tag = args_get args 2,
              Author = [], CreatedAt = UnixMilli (now en), ID = 0\<rparr>"
  obtain res r'' c'' where add: "Add en net ?nt r c = (res, r'', c'')" by (metis prod.exhaust)
  have c': "c' = c''" using assms(5) CmdAdd add by (cases res) (auto simp: add_action_def Let_def)
  show ?thesis
  proof (cases "current_user en")
    case None
    with add c' assms(1,3) show ?thesis by (auto simp: Add_no_user)
  next
    case (Some u)
    from Add_refines [OF assms(1) Some assms(2) add]
    have "repr c'' (if net = None then ss @ [created_note ?nt u (now en) (counter r)] else ss)" .
    with c' assms(3,4) show ?thesis by (cases net) auto
  qed
next
  case CmdDel
  let ?i = "word_of_int (fst (atoi (args_get args 1))) :: int32"
  obtain res c'' where del: "Delete net ?i r c = (res, c'')" by (metis prod.exhaust)
  have c': "c' = c''" using assms(5) CmdDel del by (cases res) (auto simp: del_action_def Let_def)
  from Delete_refines [OF assms(1,2) del] c' assms(3) show ?thesis
    by (cases net) (auto intro: list_all_spec_delete)
next
  case CmdMine
  then have "c' = c" using assms(5) by (auto simp: mine_action_def split: option.splits sum.splits)
  with assms(1,3) show ?thesis by blast
next
  case CmdName
  then have "c' = c" using assms(5) by (auto simp: name_action_def split: sum.splits goerror.splits)
  with assms(1,3) show ?thesis by blast
qed

lemma main_process_repr:
  assumes "repr c ss" "list_all P ss" "\<And>nt u. P (created_note nt u (now en) 0)"
    and "main_process en connect ping net args input c = (st, out, c')"
  shows "\<exists>ss'. repr c' ss' \<and> list_all P ss'"
proof -
  define h where "h = (case init_mongo_client connect ping of Inl _ \<Rightarrow> None | Inr h \<Rightarrow> Some h)"
  define r where "r = NewNotesRepository h 0"
  have mp: "main_process en connect ping net args input c =
     (case (case args of [] \<Rightarrow> None | a # _ \<Rightarrow> lookup_command a) of
        Some cmd \<Rightarrow> (case run_command cmd en net (tl args) r c of (e, out, _, c') \<Rightarrow> (exit_status e, out, c'))
      | None \<Rightarrow> (case tui_action net input r c of
                  Inl e \<Rightarrow> (exit_status (Some e), [], c) | Inr scr \<Rightarrow> (0, screen_lines scr, c)))"
    unfolding main_process_def r_def h_def Let_def by (rule refl)
  show ?thesis
  proof (cases "case args of [] \<Rightarrow> None | a # _ \<Rightarrow> lookup_command a")
    case None
    then have "c' = c" using assms(4) mp by (auto split: sum.splits)
    with assms(1,2) show ?thesis by blast
  next
    case (Some cmd)
    obtain e out' r' c'' where rc: "run_command cmd en net (tl args) r c = (e, out', r', c'')"
      by (metis prod.exhaust)
    with Some assms(4) mp have c': "c' = c''" by simp
    show ?thesis
    proof (cases h)
      case None
      then have "collection r = None" by (simp add: r_def NewNotesRepository_def)
      from run_command_no_collection [OF this, of cmd en net "tl args" c] rc c' assms(1,2)
      show ?thesis by auto
    next
      case (Some hh)
      then have "collection r \<noteq> None" "counter r = 0" by (simp_all add: r_def NewNotesRepository_def)
      with run_command_repr [OF assms(1) _ assms(2) _ rc] assms(3) c' show ?thesis by simp
    qed
  qed
qed

lemma cli_reachable_ids_zero: "cli_reachable c \<Longrightarrow> \<exists>ss. repr c ss \<and> list_all (\<lambda>s. sid s = 0) ss"
proof (induction rule: cli_reachable.induct)
  case start
  show ?case using repr_empty by auto
next
  case (step c en connect ping net args input st out c')
  then obtain ss where "repr c ss" "list_all (\<lambda>s. sid s = 0) ss" by blast
  with step.hyps(2) show ?case
    by (intro main_process_repr [where P = "\<lambda>s. sid s = 0"]) (simp_all add: created_note_def)
qed

lemma cli_reachable_run:
  "cli_reachable c \<Longrightarrow> cli_reachable (snd (snd (main_process en connect ping net args input c)))"
  by (metis cli_reachable.step prod.collapse)

lemma stored_id_zero:
  assumes "stored_as d s" "sid s = 0"
  shows "doc_typed d" and "map_of d ''id'' = Some (BInt32 0)"
  using assms by (auto simp: stored_as_iff spec_doc_def note_doc_def encode_int_def fits_int32_def
      doc_typed_def note_schema_def)

lemma list_all2_list_all:
  "list_all2 R xs ys \<Longrightarrow> list_all Q ys \<Longrightarrow> (\<And>x y. R x y \<Longrightarrow> Q y \<Longrightarrow> P x) \<Longrightarrow> list_all P xs"
  by (induction rule: list_all2_induct) auto

lemma update_items: "items (list_m (fst (update x m))) = items (list_m m)"
proof -
  have w: "list_widget_update y l = (l', k) \<Longrightarrow> items l' = items l" for y l l' k
    using list_widget_update_items [of y l] by simp
  show ?thesis by (cases x) (auto dest: w split: prod.splits option.splits)
qed

lemma sys_run_items_reachable:
  "sys_run es m c = (m', q, c') \<Longrightarrow> cli_reachable c \<Longrightarrow>
   items (list_m m') = items (list_m m) \<and> cli_reachable c'"
proof (induction es m c rule: sys_run.induct)
  case (2 x es m c)
  show ?case
  proof (cases rule: update_cases [where x = x and m = m])
    case (1 m'')
    with "2.prems" update_items [of x m] show ?thesis by simp
  next
    case (2 m'')
    with "2.IH" [OF 2(1) [symmetric] refl] "2.prems" update_items [of x m] show ?thesis by simp
  qed
qed (auto intro: cli_reachable_run)

lemma spec_find_name_mem: "spec_find_name ss n = Some s \<Longrightarrow> s \<in> set ss"
  by (auto simp: spec_find_name_def find_Some_iff)

lemma main_process_healthy:
  "main_process en None None net args input c =
     (case (case args of [] \<Rightarrow> None | a # _ \<Rightarrow> lookup_command a) of
        Some cmd \<Rightarrow>
          (case run_command cmd en net (tl args) fresh_repo c of (e, out, _, c') \<Rightarrow> (exit_status e, out, c'))
      | None \<Rightarrow>
          (case tui_action net input fresh_repo c of
             Inl e \<Rightarrow> (exit_status (Some e), [], c)
           | Inr scr \<Rightarrow> (0, screen_lines scr, c)))"
  unfolding main_process_def fresh_repo_def by (simp add: init_mongo_client_def Let_def)

lemma fresh_repo_live: "collection fresh_repo \<noteq> None" "counter fresh_repo = 0"
  by (simp_all add: fresh_repo_def NewNotesRepository_def)

lemma tui_action_live:
  assumes "collection r \<noteq> None"
  shows "\<exists>scr. tui_action net input r c = Inr scr"
proof -
  have "\<exists>m. start_model net r c = Inr m"
    using All_notes_not_panic [OF assms, of net c]
    by (auto simp: start_model_def split: sum.splits goerror.splits)
  then obtain m where "start_model net r c = Inr m" by blast
  then show ?thesis
    using view_live [OF assms, of net c "fst (run_tea input m)"]
    by (auto simp: tui_action_def split: sum.splits)
qed

lemma present_failure:
  "\<forall>p. x \<noteq> Panic p \<Longrightarrow> res \<in> {RUnit (Inl x), RNote (Inl x)} \<Longrightarrow> exit_status (fst (present cmd res)) = 1"
  by (auto simp: present_def exit_status_def split: goerror.splits)

lemma repo_step_fault:
  assumes "current_user en \<noteq> None" "collection r \<noteq> None" "op \<noteq> OpAll"
    and "repo_step en (Some e) op (r, c) = (res, r', c')"
  shows "c' = c \<and> exit_status (fst (present cmd res)) = 1"
proof (cases op)
  case (OpAdd n)
  with assms have "res = RUnit (Inl (Wrapf ''add note'' e)) \<and> c' = c"
    by (auto simp: Add_def store_simps split: option.splits)
  then show ?thesis by (simp add: present_def exit_status_def)
next
  case (OpDelete i)
  with assms have "res = RUnit (Inl (Wrapf ''delete note'' e)) \<and> c' = c"
    by (auto simp: Delete_def store_simps split: option.splits)
  then show ?thesis by (simp add: present_def exit_status_def)
next
  case (OpByAuthor a)
  with assms have "\<exists>x. res = RNote (Inl x) \<and> (\<forall>p. x \<noteq> Panic p) \<and> c' = c"
    by (auto simp: ByAuthor_def store_simps split: option.splits)
  then obtain x where "res = RNote (Inl x)" "\<forall>p. x \<noteq> Panic p" "c' = c" by blast
  then show ?thesis using present_failure [of x res cmd] by simp
next
  case (OpByName n)
  with assms have "\<exists>x. res = RNote (Inl x) \<and> (\<forall>p. x \<noteq> Panic p) \<and> c' = c"
    by (auto simp: ByName_def store_simps split: option.splits)
  then obtain x where "res = RNote (Inl x)" "\<forall>p. x \<noteq> Panic p" "c' = c" by blast
  then show ?thesis using present_failure [of x res cmd] by simp
qed (use assms in simp)

lemma main_process_command:
  assumes "current_user en \<noteq> None" and "lookup_command a = Some cmd"
    and "repo_step en net (command_op en cmd args) (fresh_repo, c) = (res, r', c')"
  shows "main_process en None None net (a # args) input c =
           (exit_status (fst (present cmd res)), snd (present cmd res), c')"
  using assms by (simp add: main_process_healthy run_command_repo_step)

lemma stored_name: "stored_as d s \<Longrightarrow> map_of d ''name'' = Some (BString (sname s))"
  by (auto simp: stored_as_iff spec_doc_def note_doc_def)

lemma list_all2_list_all_right:
  "list_all2 R xs ys \<Longrightarrow> list_all P xs \<Longrightarrow> (\<And>x y. R x y \<Longrightarrow> P x \<Longrightarrow> Q y) \<Longrightarrow> list_all Q ys"
  by (induction rule: list_all2_induct) auto

section \<open>Single processes\<close>

text \<open>
  C3. Every CLI process starts its counter at 0 and runs one command, so \<open>add\<close> always
  stores the note with id 0, whatever the collection already holds.
  The arguments are plain (\<open>plain_invocation\<close>): urfave hands them to an action.
\<close>

theorem cli_add_stores_id_zero:
  assumes "current_user en = Some u" and "plain_invocation (''add'' # args)"
  shows "main_process en None None None (''add'' # args) input c =
           (0, [], c\<lparr>docs := docs c @ [(''_id'', BObjectID (next_oid c)) #
                      note_doc \<lparr>Name = args_get args 0, Text = args_get args 1, Tag = args_get args 2,
                                Author = [], CreatedAt = UnixMilli (now en), ID = 0\<rparr> u (now en) 0],
                    next_oid := Suc (next_oid c)\<rparr>)"
  using assms
  by (simp add: cli_run_simps store_simps add_action_def Add_def note_doc_no_id)

theorem cli_add_stores_id_zero_witness:
  "main_process bob_env None None None [''add'', ''shopping'', ''milk, eggs''] [] empty_coll =
     (0, [], \<lparr>docs = [[(''_id'', BObjectID 0), (''name'', BString ''shopping''),
                       (''text'', BString ''milk, eggs''), (''tag'', BString []),
                       (''author'', BString ''bob''), (''created_at'', BDateTime 1700000000000),
                       (''id'', BInt32 0)]], next_oid = 1\<rparr>)"
proof -
  have "current_user bob_env = Some ''bob''" by (simp add: bob_env_def)
  then show ?thesis
    using cli_add_stores_id_zero [where en = bob_env and u = "''bob''" and args = "[''shopping'', ''milk, eggs'']"
        and input = "[]" and c = empty_coll]
    by (simp add: empty_coll_def args_get_def note_doc_def encode_int_def fits_int32_def bob_env_def
        plain_simps)
qed

text \<open>
  C11. When connecting or pinging MongoDB fails, the error is ignored and the repository
  keeps a nil collection: every invocation, command or list picker, then panics on its
  first repository call and exits with status 2, printing nothing and changing nothing.
  The arguments are plain (\<open>plain_invocation\<close>): urfave hands them to an action.
\<close>

theorem init_failure_panics:
  assumes "init_mongo_client connect ping = Inl err" and "plain_invocation args"
  shows "main_process en connect ping net args input c = (2, [], c)"
proof -
  let ?r = "NewNotesRepository None 0"
  have "collection ?r = None" by (simp add: NewNotesRepository_def)
  note none = run_command_no_collection [OF this] tui_action_no_collection [OF this]
  show ?thesis
    using assms none
    by (auto simp: main_process_def exit_status_def nil_deref_def Let_def split: option.splits list.splits)
qed

theorem init_failure_panics_witness:
  "main_process bob_env None (Some (NetworkError ''connection refused'')) None [''name'', ''shopping''] []
     empty_coll = (2, [], empty_coll)"
proof -
  have "init_mongo_client None (Some (NetworkError ''connection refused'')) =
          Inl (Wrapf ''connecting to mongodb server'' (NetworkError ''connection refused''))"
    by (simp add: init_mongo_client_def)
  then show ?thesis
    using init_failure_panics [where connect = None and ping = "Some (NetworkError ''connection refused'')"
        and en = bob_env and net = None and args = "[''name'', ''shopping'']" and input = "[]" and c = empty_coll]
    by (simp add: plain_simps)
qed

section \<open>The database that processes leave behind\<close>

text \<open>
  C6. Every document in a database written only by this program has the note schema:
  an ObjectID \<open>_id\<close>, the strings \<open>name\<close>, \<open>text\<close>, \<open>tag\<close>, \<open>author\<close>, the datetime
  \<open>created_at\<close> and an int32 \<open>id\<close>, in this order.
\<close>

theorem cli_db_typed:
  assumes "cli_reachable c"
  shows "list_all doc_typed (docs c)"
proof -
  obtain ss where "repr c ss" "list_all (\<lambda>s. sid s = 0) ss"
    using cli_reachable_ids_zero [OF assms] by blast
  then show ?thesis
    by (auto simp: repr_def elim: list_all2_list_all intro: stored_id_zero(1))
qed

theorem cli_db_typed_witness:
  "docs (snd (snd (main_process bob_env None None None [''add'', ''shopping'', ''milk, eggs''] [] empty_coll))) \<noteq> []
   \<and> list_all doc_typed (docs (snd (snd (main_process bob_env None None None [''add'', ''shopping'', ''milk, eggs''] [] empty_coll))))"
  using cli_db_typed [OF cli_reachable_run [OF cli_reachable.start,
      of bob_env None None None "[''add'', ''shopping'', ''milk, eggs'']" "[]"]]
  by (simp add: cli_run_simps store_simps add_action_def Add_def bob_env_def)

text \<open>
  C5. Every note in a database written only by this program carries the id 0, however
  many processes added notes: the identifier never distinguishes two notes.
\<close>

theorem cli_db_ids_zero:
  assumes "cli_reachable c"
  shows "list_all (\<lambda>d. map_of d ''id'' = Some (BInt32 0)) (docs c)"
proof -
  obtain ss where "repr c ss" "list_all (\<lambda>s. sid s = 0) ss"
    using cli_reachable_ids_zero [OF assms] by blast
  then show ?thesis
    by (auto simp: repr_def elim: list_all2_list_all intro: stored_id_zero(2))
qed

theorem cli_db_ids_zero_witness:
  "list_all (\<lambda>d. map_of d ''id'' = Some (BInt32 0))
     (docs (snd (snd (main_process bob_env None None None [''add'', ''b'', ''y''] []
       (snd (snd (main_process bob_env None None None [''add'', ''a'', ''x''] [] empty_coll)))))))"
  using cli_db_ids_zero [OF cli_reachable_run [OF cli_reachable_run [OF cli_reachable.start,
      of bob_env None None None "[''add'', ''a'', ''x'']" "[]"],
      of bob_env None None None "[''add'', ''b'', ''y'']" "[]"]] .

text \<open>
  C17. On a database written only by this program, listing never loses a note: \<open>All\<close>
  succeeds with one note per document, each with id 0 and a zero creation time.
\<close>

theorem cli_db_listing:
  assumes "cli_reachable c" and "collection r \<noteq> None"
  shows "\<exists>ns. All_notes None r c = Inr ns \<and> length ns = length (docs c)
           \<and> list_all (\<lambda>n. ID n = 0 \<and> CreatedAt n = ZeroTime) ns"
proof -
  obtain ss where ss: "repr c ss" "list_all (\<lambda>s. sid s = 0) ss"
    using cli_reachable_ids_zero [OF assms(1)] by blast
  then have "list_all id_fits ss" by (auto simp: list_all_iff id_fits_def fits_int32_def)
  moreover have "length (docs c) = length ss" using ss(1) by (simp add: repr_def list_all2_lengthD)
  ultimately show ?thesis
    using All_refines [OF ss(1) assms(2)] ss(2) by (auto simp: list_all_iff read_view_def)
qed

theorem cli_db_listing_witness:
  "All_notes None fresh_repo
     (snd (snd (main_process bob_env None None None [''add'', ''shopping'', ''milk, eggs''] [] empty_coll)))
   = Inr [\<lparr>Name = ''shopping'', Text = ''milk, eggs'', Tag = [], Author = ''bob'', CreatedAt = ZeroTime, ID = 0\<rparr>]"
proof -
  have "collection fresh_repo \<noteq> None" by (simp add: fresh_repo_def NewNotesRepository_def)
  from cli_db_listing [OF cli_reachable_run [OF cli_reachable.start,
      of bob_env None None None "[''add'', ''shopping'', ''milk, eggs'']" "[]"] this]
  show ?thesis
    by (simp add: cli_run_simps store_simps add_doc_simps bob_env_def fresh_repo_def
      All_notes_def decode_note_def decode_field_def zero_note_def)
qed

text \<open>
  C4. On a database written only by this program, \<open>del\<close> with one argument, whatever it
  is, deletes the oldest note: the argument is never read, the id defaults to 0, and
  every note has id 0.
  The arguments are plain (\<open>plain_invocation\<close>): urfave hands them to an action.
\<close>

theorem cli_del_removes_oldest:
  assumes "cli_reachable c" and "docs c = d # ds" and "plain_invocation [''del'', x]"
  shows "main_process en None None None [''del'', x] input c = (0, [], c\<lparr>docs := ds\<rparr>)"
proof -
  obtain ss where ss: "repr c ss" "list_all (\<lambda>s. sid s = 0) ss"
    using cli_reachable_ids_zero [OF assms(1)] by blast
  then obtain s where "stored_as d s" "sid s = 0"
    using assms(2) by (auto simp: repr_def list_all2_Cons1)
  then have m: "matches [(''id'', BInt32 0)] d" by (simp add: stored_as_matches(4))
  have "atoi [] = (0, False)" by (simp add: atoi_def split_sign_def)
  with m assms(2) show ?thesis
    by (simp add: cli_run_simps store_simps del_action_def Delete_def)
qed

theorem cli_del_removes_oldest_witness:
  "main_process bob_env None None None [''del'', ''7''] []
     (snd (snd (main_process bob_env None None None [''add'', ''b'', ''y''] []
       (snd (snd (main_process bob_env None None None [''add'', ''a'', ''x''] [] empty_coll))))))
   = (0, [], \<lparr>docs = [[(''_id'', BObjectID 1), (''name'', BString ''b''), (''text'', BString ''y''),
                 (''tag'', BString []), (''author'', BString ''bob''),
                 (''created_at'', BDateTime 1700000000000), (''id'', BInt32 0)]], next_oid = 2\<rparr>)"
proof -
  let ?c = "snd (snd (main_process bob_env None None None [''add'', ''b'', ''y''] []
       (snd (snd (main_process bob_env None None None [''add'', ''a'', ''x''] [] empty_coll)))))"
  have r: "cli_reachable ?c"
    by (intro cli_reachable_run cli_reachable.start)
  have c: "?c = \<lparr>docs = [[(''_id'', BObjectID 0), (''name'', BString ''a''), (''text'', BString ''x''),
                 (''tag'', BString []), (''author'', BString ''bob''),
                 (''created_at'', BDateTime 1700000000000), (''id'', BInt32 0)],
                [(''_id'', BObjectID 1), (''name'', BString ''b''), (''text'', BString ''y''),
                 (''tag'', BString []), (''author'', BString ''bob''),
                 (''created_at'', BDateTime 1700000000000), (''id'', BInt32 0)]], next_oid = 2\<rparr>"
    by (simp add: cli_run_simps store_simps add_doc_simps bob_env_def)
  show ?thesis
    using cli_del_removes_oldest [OF r, where d = "hd (docs ?c)" and ds = "tl (docs ?c)"
        and en = bob_env and x = "''7''" and input = "[]"]
    unfolding c by (simp add: plain_simps)
qed

text \<open>
  C18. While the picker is open, other processes may add and delete notes: the list it
  shows stays the one loaded at its start, but the note it opens is looked up in the
  database as the other processes left it, so a note deleted in between opens as an
  empty text.
\<close>

theorem picker_reads_live_database:
  assumes "cli_reachable c" and "start_model None fresh_repo c = Inr m0"
    and "sys_run es m0 c = (m', True, c')" and "choice m' \<noteq> []"
  shows "items (list_m m') = items (list_m m0)
    \<and> (\<exists>ss'. repr c' ss' \<and>
         view None fresh_repo c' m' =
           Inr (QuitText (case spec_find_name ss' (choice m') of None \<Rightarrow> [] | Some s \<Rightarrow> stext s)))"
proof -
  have fr: "collection fresh_repo \<noteq> None" by (simp add: fresh_repo_def NewNotesRepository_def)
  from sys_run_items_reachable [OF assms(3,1)]
  have items: "items (list_m m') = items (list_m m0)" and reach: "cli_reachable c'" by auto
  obtain ss' where ss': "repr c' ss'" "list_all (\<lambda>s. sid s = 0) ss'"
    using cli_reachable_ids_zero [OF reach] by blast
  have "view None fresh_repo c' m' =
          Inr (QuitText (case spec_find_name ss' (choice m') of None \<Rightarrow> [] | Some s \<Rightarrow> stext s))"
  proof (cases "spec_find_name ss' (choice m')")
    case None
    then show ?thesis
      using view_live [OF fr] ByName_refines [OF ss'(1) fr] assms(4)
      by (simp add: found_view_def find_result_def zero_note_def)
  next
    case (Some s)
    then have "sid s = 0" using ss'(2) by (auto simp: list_all_iff dest: spec_find_name_mem)
    then have "id_fits s" by (simp add: id_fits_def fits_int32_def)
    with Some show ?thesis
      using view_live [OF fr] ByName_refines [OF ss'(1) fr] assms(4)
      by (simp add: found_view_def find_result_def read_view_def)
  qed
  with items ss'(1) show ?thesis by blast
qed

theorem picker_reads_live_database_witness:
  "sys_run [OtherProcess bob_env None None None [''del'', ''0''] [], PickerMsg (KeyMsg ''enter'')]
     \<lparr>list_m = \<lparr>items = [''shopping''], cursor = 0, width = 20\<rparr>, choice = [], quitting = False\<rparr>
     (snd (snd (main_process bob_env None None None [''add'', ''shopping'', ''milk, eggs''] [] empty_coll)))
   = (\<lparr>list_m = \<lparr>items = [''shopping''], cursor = 0, width = 20\<rparr>, choice = ''shopping'', quitting = False\<rparr>,
      True, \<lparr>docs = [], next_oid = 1\<rparr>)
   \<and> view None fresh_repo \<lparr>docs = [], next_oid = 1\<rparr>
       \<lparr>list_m = \<lparr>items = [''shopping''], cursor = 0, width = 20\<rparr>, choice = ''shopping'', quitting = False\<rparr>
     = Inr (QuitText [])"
proof -
  let ?c = "snd (snd (main_process bob_env None None None [''add'', ''shopping'', ''milk, eggs''] [] empty_coll))"
  let ?m0 = "\<lparr>list_m = \<lparr>items = [''shopping''], cursor = 0, width = 20\<rparr>, choice = [], quitting = False\<rparr>"
  let ?m' = "\<lparr>list_m = \<lparr>items = [''shopping''], cursor = 0, width = 20\<rparr>, choice = ''shopping'', quitting = False\<rparr>"
  let ?es = "[OtherProcess bob_env None None None [''del'', ''0''] [], PickerMsg (KeyMsg ''enter'')]"
  have reach: "cli_reachable ?c" by (intro cli_reachable_run cli_reachable.start)
  have c: "?c = \<lparr>docs = [[(''_id'', BObjectID 0), (''name'', BString ''shopping''),
                 (''text'', BString ''milk, eggs''), (''tag'', BString []), (''author'', BString ''bob''),
                 (''created_at'', BDateTime 1700000000000), (''id'', BInt32 0)]], next_oid = 1\<rparr>"
    by (simp add: cli_run_simps store_simps add_doc_simps bob_env_def)
  have start: "start_model None fresh_repo ?c = Inr ?m0"
    unfolding c
    by (simp add: start_model_def All_notes_def fresh_repo_def NewNotesRepository_def find_docs_def
      matches_def decode_note_def decode_field_def zero_note_def)
  have "atoi [] = (0, False)" by (simp add: atoi_def split_sign_def)
  then have run: "sys_run ?es ?m0 ?c = (?m', True, \<lparr>docs = [], next_oid = 1\<rparr>)"
    unfolding c
    by (simp add: cli_run_simps store_simps del_action_def Delete_def
      bval_eq_def selected_item_def)
  from picker_reads_live_database [OF reach start run]
  obtain ss' where "repr \<lparr>docs = [], next_oid = 1\<rparr> ss'"
      "view None fresh_repo \<lparr>docs = [], next_oid = 1\<rparr> ?m' =
         Inr (QuitText (case spec_find_name ss' ''shopping'' of None \<Rightarrow> [] | Some s \<Rightarrow> stext s))"
    by auto
  then show ?thesis using run by (simp add: repr_def spec_find_name_def)
qed

section \<open>Processes against the abstract store\<close>

text \<open>
  C14. Every command run as a process against a healthy database is one step of the
  abstract store at counter 0, presented: the process ends with the exit status and
  the lines that \<open>present\<close> makes of the abstract step's result, and its collection
  represents the abstract store after the step.
  The arguments are plain (\<open>plain_invocation\<close>): urfave hands them to an action.
\<close>

theorem cli_process_refines:
  assumes "repr c ss" and "current_user en = Some u" and "lookup_command a = Some cmd"
    and "spec_step u (now en) (command_op en cmd args) (0, ss) = (res, k, ss')"
    and "plain_invocation (a # args)"
  shows "\<exists>c'. main_process en None None None (a # args) input c =
              (exit_status (fst (present cmd res)), snd (present cmd res), c') \<and> repr c' ss'"
proof -
  obtain res_i r' c' where rs: "repo_step en None (command_op en cmd args) (fresh_repo, c) = (res_i, r', c')"
    by (metis prod.exhaust)
  have "res_i = res \<and> repr c' ss'"
    using step_refines [OF assms(1,2) fresh_repo_live(1) rs] assms(4) by (simp add: fresh_repo_live(2))
  moreover have "main_process en None None None (a # args) input c =
                   (exit_status (fst (present cmd res_i)), snd (present cmd res_i), c')"
    using assms(2,3) rs by (intro main_process_command) simp_all
  ultimately show ?thesis by blast
qed

theorem cli_process_refines_witness:
  "\<exists>c'. main_process bob_env None None None [''name'', ''shopping''] []
          \<lparr>docs = [(''_id'', BObjectID 0) # spec_doc (created_note (zero_note\<lparr>Name := ''shopping'', Text := ''milk, eggs''\<rparr>) ''bob'' 5 0)], next_oid = 1\<rparr> =
        (0, [''milk, eggs''], c') \<and> repr c' [created_note (zero_note\<lparr>Name := ''shopping'', Text := ''milk, eggs''\<rparr>) ''bob'' 5 0]"
proof -
  let ?s = "created_note (zero_note\<lparr>Name := ''shopping'', Text := ''milk, eggs''\<rparr>) ''bob'' 5 0"
  have "repr \<lparr>docs = [(''_id'', BObjectID 0) # spec_doc ?s], next_oid = 1\<rparr> [?s]"
    by (simp add: repr_def stored_as_def)
  moreover have "current_user bob_env = Some ''bob''" by (simp add: bob_env_def)
  moreover have "lookup_command ''name'' = Some CmdName" by (simp add: lookup_command_def commands_def)
  moreover have "spec_step ''bob'' (now bob_env) (command_op bob_env CmdName [''shopping'']) (0, [?s]) =
                   (RNote (Inr (read_view ?s)), 0, [?s])"
    by (simp add: command_op_def args_get_def spec_find_name_def created_note_def
        found_view_def id_fits_def fits_int32_def find_result_def)
  ultimately show ?thesis
    using cli_process_refines [where c = "\<lparr>docs = [(''_id'', BObjectID 0) # spec_doc ?s], next_oid = 1\<rparr>"
        and ss = "[?s]" and en = bob_env and u = "''bob''" and a = "''name''" and cmd = CmdName
        and args = "[''shopping'']" and res = "RNote (Inr (read_view ?s))" and k = 0 and ss' = "[?s]"
        and input = "[]"]
    by (simp add: present_def exit_status_def read_view_def created_note_def plain_simps)
qed

text \<open>
  C15. When MongoDB accepts the connection but every later round trip fails, every
  command exits with status 1 and leaves the database unchanged, while the list picker
  swallows the failures, shows an empty list and exits with status 0.
  The arguments are plain (\<open>plain_invocation\<close>): urfave hands them to an action.
\<close>

theorem faulty_database_exit_status:
  assumes "current_user en = Some u"
    and "main_process en None None (Some e) args input c = (st, out, c')"
    and "plain_invocation args"
  shows "c' = c \<and> st = (if (case args of [] \<Rightarrow> None | a # _ \<Rightarrow> lookup_command a) = None then 0 else 1)"
proof (cases "case args of [] \<Rightarrow> None | a # _ \<Rightarrow> lookup_command a")
  case None
  obtain scr where "tui_action (Some e) input fresh_repo c = Inr scr"
    using tui_action_live [OF fresh_repo_live(1)] by blast
  with None assms(2) show ?thesis by (simp add: main_process_healthy)
next
  case (Some cmd)
  have op: "command_op en cmd (tl args) \<noteq> OpAll" by (cases cmd) (simp_all add: command_op_def)
  obtain res r' c'' where rs: "repo_step en (Some e) (command_op en cmd (tl args)) (fresh_repo, c) = (res, r', c'')"
    by (metis prod.exhaust)
  have "c'' = c \<and> exit_status (fst (present cmd res)) = 1"
    using repo_step_fault [OF _ fresh_repo_live(1) op rs] assms(1) by simp
  moreover have "args = hd args # tl args" using Some by (cases args) simp_all
  ultimately show ?thesis
    using main_process_command [of en "hd args" cmd "Some e" "tl args" c res r' c'' input] Some assms rs
    by (cases args) simp_all
qed

theorem faulty_database_exit_status_witness:
  "fst (main_process bob_env None None (Some (NetworkError ''timeout'')) [''add'', ''x''] [] empty_coll) = 1
   \<and> snd (snd (main_process bob_env None None (Some (NetworkError ''timeout'')) [''add'', ''x''] [] empty_coll))
       = empty_coll
   \<and> fst (main_process bob_env None None (Some (NetworkError ''timeout'')) [] [KeyMsg ''q''] empty_coll) = 0"
proof -
  have u: "current_user bob_env = Some ''bob''" by (simp add: bob_env_def)
  obtain st out c' where r1:
      "main_process bob_env None None (Some (NetworkError ''timeout'')) [''add'', ''x''] [] empty_coll = (st, out, c')"
    by (metis prod.exhaust)
  obtain st2 out2 c2 where r2:
      "main_process bob_env None None (Some (NetworkError ''timeout'')) [] [KeyMsg ''q''] empty_coll = (st2, out2, c2)"
    by (metis prod.exhaust)
  have "lookup_command ''add'' = Some CmdAdd" by (simp add: lookup_command_def commands_def)
  then show ?thesis
    using faulty_database_exit_status [OF u r1] faulty_database_exit_status [OF u r2] r1 r2
    by (simp add: plain_simps)
qed

text \<open>
  C13. The specification's create-then-find scenario run through the command line:
  on a database written only by this program, \<open>add n t\<close> in one process and
  \<open>name n\<close> in the next print \<open>t\<close> and exit with status 0, when no note was named
  \<open>n\<close> before.
  The arguments are plain (\<open>plain_invocation\<close>): urfave hands them to an action.
\<close>

theorem cli_add_then_name:
  assumes "cli_reachable c" and "current_user en = Some u"
    and "\<forall>d\<in>set (docs c). map_of d ''name'' \<noteq> Some (BString n)"
    and "plain_invocation [''add'', n, t]" and "plain_invocation [''name'', n]"
  shows "main_process en None None None [''name'', n] input
           (snd (snd (main_process en None None None [''add'', n, t] input c)))
         = (0, [t], snd (snd (main_process en None None None [''add'', n, t] input c)))"
proof -
  obtain ss where ss: "repr c ss" "list_all (\<lambda>s. sid s = 0) ss"
    using cli_reachable_ids_zero [OF assms(1)] by blast
  have "list_all (\<lambda>s. sname s \<noteq> n) ss"
  proof (rule list_all2_list_all_right [where R = stored_as and P = "\<lambda>d. map_of d ''name'' \<noteq> Some (BString n)"])
    show "list_all2 stored_as (docs c) ss" using ss(1) by (simp add: repr_def)
    show "list_all (\<lambda>d. map_of d ''name'' \<noteq> Some (BString n)) (docs c)"
      using assms(3) by (simp add: list_all_iff)
  qed (auto simp: stored_name)
  then have fresh: "spec_find_name ss n = None" by (simp add: spec_find_name_def find_None_iff list_all_iff)
  let ?nt = "\<lparr>Name = n, Text = t, Tag = [], Author = [], CreatedAt = UnixMilli (now en), ID = 0\<rparr>"
  let ?s = "created_note ?nt u (now en) 0"
  have ops: "command_op en CmdAdd [n, t] = OpAdd ?nt" "command_op en CmdName [n] = OpByName n"
    by (simp_all add: command_op_def args_get_def)
  have cmds: "lookup_command ''add'' = Some CmdAdd" "lookup_command ''name'' = Some CmdName"
    by (simp_all add: lookup_command_def commands_def)
  obtain res1 r1 c1 where add: "repo_step en None (OpAdd ?nt) (fresh_repo, c) = (res1, r1, c1)"
    by (metis prod.exhaust)
  have "res1 = RUnit (Inr ()) \<and> repr c1 (ss @ [?s])"
    using step_refines [OF ss(1) assms(2) fresh_repo_live(1) add] by (simp add: fresh_repo_live(2))
  moreover have p1: "main_process en None None None [''add'', n, t] input c =
      (exit_status (fst (present CmdAdd res1)), snd (present CmdAdd res1), c1)"
    using main_process_command [OF _ cmds(1), of en None "[n, t]" c] assms(2) add ops(1) by simp
  ultimately have rep1: "repr c1 (ss @ [?s])" by blast
  obtain res2 r2 c2 where nm: "repo_step en None (OpByName n) (fresh_repo, c1) = (res2, r2, c2)"
    by (metis prod.exhaust)
  have "spec_find_name (ss @ [?s]) n = Some ?s"
    using fresh by (simp add: spec_find_name_def find_append created_note_def)
  moreover have "id_fits ?s" by (simp add: id_fits_def fits_int32_def created_note_def)
  ultimately have "res2 = RNote (Inr (read_view ?s)) \<and> c2 = c1"
    using step_refines [OF rep1 assms(2) fresh_repo_live(1) nm] nm
    by (simp add: fresh_repo_live(2) found_view_def find_result_def)
  then show ?thesis
    using main_process_command [OF _ cmds(2), of en None "[n]" c1] assms(2) nm ops(2) p1
    by (simp add: present_def exit_status_def read_view_def created_note_def)
qed

theorem cli_add_then_name_witness:
  "main_process bob_env None None None [''name'', ''shopping''] []
     (snd (snd (main_process bob_env None None None [''add'', ''shopping'', ''milk, eggs''] [] empty_coll)))
   = (0, [''milk, eggs''],
      snd (snd (main_process bob_env None None None [''add'', ''shopping'', ''milk, eggs''] [] empty_coll)))"
proof -
  have "current_user bob_env = Some ''bob''" by (simp add: bob_env_def)
  moreover have "\<forall>d\<in>set (docs empty_coll). map_of d ''name'' \<noteq> Some (BString ''shopping'')"
    by (simp add: empty_coll_def)
  ultimately show ?thesis
    using cli_add_then_name [OF cli_reachable.start, where en = bob_env and u = "''bob''"
        and n = "''shopping''" and t = "''milk, eggs''" and input = "[]"]
    by (simp add: plain_simps)
qed

end
