(* ===== verification/Cobra.thy ===== *)
theory Cobra
  imports Cli
begin

text \<open>
  The cobra front end of \<open>src/internal/cli/commands.go\<close>, which \<open>main\<close> does not
  use. It calls \<open>AddNote\<close> and \<open>DeleteNote\<close> on a \<open>repository.NotesRepository\<close>, an
  interface that declares neither, so the package does not compile and the two methods
  have no implementation. They are therefore parameters here: \<open>notes_api\<close> is the
  interface the file assumes, with the state \<open>'s\<close> its implementation would change.
  The definitions translate the file line by line; no property is stated about them,
  since a package that does not compile has no behaviour beyond what these
  definitions spell out. The return values of both calls are
  discarded by the code. Indexing \<open>args[i]\<close> past the end is a Go runtime panic.
\<close>

record 's notes_api =
  AddNote :: "string \<Rightarrow> string \<Rightarrow> 's \<Rightarrow> 's"
  DeleteNote :: "int32 \<Rightarrow> 's \<Rightarrow> 's"

text \<open>\<open>CLI\<close> and \<open>NewCLI\<close> (lines 10--16).\<close>

record 's cobra_cli =
  notesRepo :: "'s notes_api"

definition NewCLI :: "'s notes_api \<Rightarrow> 's cobra_cli" where
  "NewCLI api = \<lparr>notesRepo = api\<rparr>"

definition index_panic :: goerror where
  "index_panic = Panic ''runtime error: index out of range''"

text \<open>The \<open>Run\<close> functions of \<open>add\<close> (lines 21--27) and \<open>del\<close> (lines 29--36).\<close>

definition cobra_add_run :: "'s cobra_cli \<Rightarrow> string list \<Rightarrow> 's \<Rightarrow> goerror + 's" where
  "cobra_add_run c args s =
     (if length args < 2 then Inl index_panic
      else Inr (AddNote (notesRepo c) (args ! 0) (args ! 1) s))"

definition cobra_del_run :: "'s cobra_cli \<Rightarrow> string list \<Rightarrow> 's \<Rightarrow> goerror + 's" where
  "cobra_del_run c args s =
     (if args = [] then Inl index_panic
      else Inr (DeleteNote (notesRepo c) (word_of_int (fst (atoi (args ! 0)))) s))"

text \<open>\<open>InitCommands\<close> (lines 18--39): the map from command names to their \<open>Run\<close>.\<close>

definition InitCommands :: "'s cobra_cli \<Rightarrow> string \<Rightarrow> (string list \<Rightarrow> 's \<Rightarrow> goerror + 's) option" where
  "InitCommands c = [''add'' \<mapsto> cobra_add_run c, ''del'' \<mapsto> cobra_del_run c]"

end
