(* ===== verification/Spec2Isabelle.thy ===== *)
theory Spec2Isabelle
  imports Process Cobra
begin

text \<open>
  \<^bold>\<open>A verification development of notes-go.\<close>

  notes-go stores short notes (name, text, tag, author, creation time, numeric id) in a
  MongoDB collection and offers them through a command-line program. Its parts, and the
  theory that models each:
  \<^item> \<open>src/internal/model/note.go\<close>: the \<open>Note\<close> struct (theory \<open>Note\<close>: record \<open>Note\<close>,
    \<open>zero_note\<close> for \<open>Note{}\<close>).
  \<^item> \<open>src/internal/repository/mongo.go\<close>: \<open>InitMongoClient\<close> connects and pings
    (theory \<open>Mongo\<close>: \<open>init_mongo_client\<close>, the outcome of each round trip given as an
    argument).
  \<^item> \<open>src/internal/repository/notes.go\<close>: \<open>NewNotesRepository\<close> and the five methods
    \<open>Add\<close>, \<open>Delete\<close>, \<open>ByAuthor\<close>, \<open>ByName\<close>, \<open>All\<close> (theory \<open>Repository\<close>: record
    \<open>notes_repo\<close> with the collection handle and the 64-bit \<open>counter\<close>, one definition
    per method, \<open>All_notes\<close> for \<open>All\<close>; \<open>env\<close> carries the OS user and clock that
    \<open>Add\<close> reads; the interface as the datatype \<open>repo_op\<close> with \<open>repo_step\<close>).
  \<^item> \<open>src/cmd/main.go\<close>: the urfave/cli commands \<open>add\<close>, \<open>del\<close>, \<open>mine\<close>, \<open>name\<close>
    (theory \<open>Cli\<close>: \<open>add_action\<close>, \<open>del_action\<close>, \<open>mine_action\<close>, \<open>name_action\<close>,
    \<open>run_command\<close>); the bubbletea list picker of the default action (theory \<open>Tui\<close>:
    \<open>tui_model\<close>, \<open>Init\<close>, \<open>update\<close>, \<open>view\<close>, \<open>render_item\<close>, \<open>start_model\<close>; the
    event loop over an unbounded message stream \<open>tea_loop\<close>, a
    \<open>partial_function (option)\<close> whose \<open>None\<close> is a program waiting forever, and its
    finite-input form \<open>run_tea\<close> used by the action \<open>tui_action\<close>);
    \<open>main\<close> with its package variables (theory \<open>Process\<close>: \<open>main_process\<close>,
    \<open>exit_status\<close>, and the inductive \<open>cli_reachable\<close> of the databases any sequence
    of processes leaves).
  \<^item> \<open>src/internal/cli/commands.go\<close>: the cobra commands (theory \<open>Cobra\<close>). The file
    does not compile, since it calls \<open>AddNote\<close> and \<open>DeleteNote\<close>, which nothing
    declares; the model takes the two methods as parameters (\<open>notes_api\<close>).

  The MongoDB driver is a library; theory \<open>Bson\<close> models what the code relies on of it:
  documents as ordered key/value lists, Go integers encoded as int32 when they fit and
  int64 otherwise, filters that compare numbers across widths, and decoding into
  \<open>Note\<close> by lower-cased field name (so \<open>CreatedAt\<close> is read from the key
  \<open>createdat\<close>) with the int32 overflow error. Theory \<open>Mongo\<close> models one collection
  (record \<open>coll\<close>, documents in insertion order) and \<open>InsertOne\<close>, \<open>DeleteOne\<close>,
  \<open>FindOne\<close>, \<open>Find\<close>, \<open>Cursor.All\<close>. Errors are values: \<open>goerror\<close> distinguishes
  \<open>fmt.Errorf\<close> with a plain message, \<open>fmt.Errorf\<close> wrapping a driver error with
  \<open>%w\<close> (\<open>Wrapf\<close>) and a Go panic, and every fallible
  result is \<open>goerror + 'a\<close>. Each repository call takes a \<open>mongo_error option\<close> for the
  fault its round trip may meet. Theory \<open>Prelude\<close> holds the shared list, digit and
  word lemmas; the library helpers \<open>strconv.Atoi\<close>/\<open>Itoa\<close>, \<open>Args().Get\<close>, the bubbles
  list's cursor and quit keys and the bubbletea loop are modelled from their
  documentation in \<open>Cli\<close> and \<open>Tui\<close>.

  \<^bold>\<open>What is proved.\<close>
  \<^item> Refinement (\<open>Repository\<close>, this theory): an abstract store, a list of
    \<open>spec_note\<close>, related to the collection by \<open>repr\<close>; each operation without fault
    computes what \<open>spec_step\<close> computes on the store (\<open>step_refines\<close>), and so does any
    sequence of calls (\<open>run_refines\<close>). The abstract step states the code's actual
    behaviour: a note read back has a zero \<open>CreatedAt\<close>, a listing with an id
    beyond int32 is empty.
  \<^item> Per-operation behaviour on every branch, errors included (\<open>Repository\<close>):
    success and failure of \<open>Add\<close>, the counter's wrap-around, missing ids, empty stores,
    the mislabelled \<open>ByName\<close> error, the swallowed \<open>All\<close> error.
  \<^item> Commands (\<open>Cli\<close>): \<open>del\<close> reads the second argument, so with one argument it
    deletes id 0; it truncates to 32 bits and round-trips decimal ids; \<open>name\<close> and
    \<open>mine\<close> output. The cobra commands (\<open>Cobra\<close>) are translated but no property is
    stated about a package that does not compile.
  \<^item> The picker (\<open>Tui\<close>): a cursor invariant over any message sequence, the rendered
    lines, the hidden lookup error, which quit key shows the farewell, a note with an
    empty name that can never be opened; liveness: the program returns iff a quit key
    arrives. Here: choosing entry \<open>k\<close> shows the first note of that name.
  \<^item> Processes (\<open>Process\<close>): each CLI \<open>add\<close> stores id 0; a failed connection makes
    every invocation panic. By rule induction on
    \<open>cli_reachable\<close>: every document of a database written only by the program has the
    note schema (\<open>doc_typed\<close>) and id 0, listing it never fails, and \<open>del\<close> with any
    single argument deletes the oldest note. With other processes interleaved
    (\<open>sys_run\<close>), the picker's list stays the one it loaded while the note it opens is
    looked up in the current database. Each command is one call of the repository
    interface (\<open>command_op\<close>, theory \<open>Cli\<close>) presented by \<open>present\<close>, so a whole
    healthy process refines one step of the abstract store at counter 0
    (\<open>cli_process_refines\<close>), and the specification's create-then-find scenario
    holds through the command line (\<open>add n t\<close>, then \<open>name n\<close> prints \<open>t\<close>); with
    every round trip failing, commands exit 1 and
    change nothing while the picker exits 0. Within one process ids stay distinct
    (this theory).

  \<^bold>\<open>Bounds.\<close> The counter is a 64-bit word, as Go's \<open>int\<close>; \<open>process_ids_distinct\<close>
  assumes fewer than \<open>2^64\<close> calls in one process, which is exactly when the counter
  does not wrap. Ids are stored as int32 when they fit, so the refinement keeps the full
  64-bit id in the store and the read view truncates with \<open>scast\<close>. No fuel is used:
  the event loop is partial and its termination is a theorem about the input.

  \<^bold>\<open>Assumptions of the model.\<close> The collection keeps documents in insertion order
  and \<open>FindOne\<close>, \<open>DeleteOne\<close> and \<open>Find\<close> without a sort take the first matches in
  that order; MongoDB only promises natural order, which is insertion order for a
  collection written this way but is not guaranteed, and the theorems on which note a
  lookup or delete picks among several (\<open>cli_del_removes_oldest\<close>,
  \<open>tui_opens_first_note_named\<close>, \<open>name_action_result\<close>) rest on it. Bubbletea's
  \<open>tea.Quit\<close> is asynchronous (a quit message sent back through the message
  channel), so messages queued behind a quit key may still reach \<open>Update\<close>; the
  loops here stop at the first quit key, which is exact for inputs that end with it,
  as in the theorems about picking a note.

  \<^bold>\<open>Not modelled.\<close> lipgloss styles (padding and colour only); the bubbles list's
  paging, filtering, the help view and window resizing beyond storing the width, and the
  \<open>item\<close>/\<open>itemDelegate\<close> boilerplate (one line per item, no spacing); the output of
  urfave's help command and of its flag parsing: \<open>main_process\<close> is faithful for the
  invocations urfave hands to an action (\<open>plain_invocation\<close>, theory \<open>Cli\<close>), and
  every theorem about one process with arbitrary arguments assumes it, while
  \<open>cli_reachable\<close> ranges over all argument lists, more runs than urfave lets through,
  so its invariants hold a fortiori; network faults in the middle of \<open>Cursor.All\<close>; the difference
  between a nil and an empty slice (both are the empty list); the concrete ObjectIDs the
  server assigns (a counter in \<open>coll\<close>); an implementation of cobra's \<open>AddNote\<close> and
  \<open>DeleteNote\<close>, which does not exist.
\<close>

section \<open>Sequences of repository calls\<close>

text \<open>
  A process issues repository calls one after another, each with the environment it
  sees (user, clock); \<open>run_repo\<close> runs them on the implementation with every round trip
  succeeding, \<open>run_spec\<close> on the abstract store.
\<close>

definition call_user :: "env \<Rightarrow> string" where
  "call_user en = (case current_user en of Some u \<Rightarrow> u | None \<Rightarrow> [])"

fun run_repo :: "(env \<times> repo_op) list \<Rightarrow> notes_repo \<times> coll \<Rightarrow>
    repo_result list \<times> notes_repo \<times> coll" where
  "run_repo [] s = ([], s)"
| "run_repo ((en, op) # calls) s =
     (case repo_step en None op s of
        (res, s') \<Rightarrow> (case run_repo calls s' of (rs, s'') \<Rightarrow> (res # rs, s'')))"

fun run_spec :: "(env \<times> repo_op) list \<Rightarrow> int64 \<times> spec_note list \<Rightarrow>
    repo_result list \<times> int64 \<times> spec_note list" where
  "run_spec [] a = ([], a)"
| "run_spec ((en, op) # calls) a =
     (case spec_step (call_user en) (now en) op a of
        (res, a') \<Rightarrow> (case run_spec calls a' of (rs, a'') \<Rightarrow> (res # rs, a'')))"

definition users_known :: "(env \<times> repo_op) list \<Rightarrow> bool" where
  "users_known calls \<longleftrightarrow> list_all (\<lambda>(en, _). current_user en \<noteq> None) calls"

definition shopping :: Note where
  "shopping = zero_note\<lparr>Name := ''shopping'', Text := ''milk, eggs'', Tag := ''errands''\<rparr>"

definition ids_below :: "int64 \<Rightarrow> spec_note list \<Rightarrow> bool" where
  "ids_below k ss \<longleftrightarrow> list_all (\<lambda>s. unat (sid s) < unat k) ss \<and> distinct (map sid ss)"

section \<open>The repository refines the abstract store\<close>

lemma run_repo_refines:
  assumes "repr c ss" "collection r \<noteq> None" "users_known calls"
    and "run_repo calls (r, c) = (rs, r', c')"
    and "run_spec calls (counter r, ss) = (rs', k', ss')"
  shows "rs = rs' \<and> counter r' = k' \<and> collection r' = collection r \<and> repr c' ss'"
  using assms
proof (induction calls arbitrary: r c ss rs rs')
  case Nil
  then show ?case by simp
next
  case (Cons call calls)
  obtain en op where call: "call = (en, op)" by (cases call)
  from Cons.prems(3) call obtain u where u: "current_user en = Some u"
    by (auto simp: users_known_def)
  obtain res r1 c1 where s1: "repo_step en None op (r, c) = (res, r1, c1)"
    by (metis prod.exhaust)
  obtain res' k1 ss1 where a1: "spec_step u (now en) op (counter r, ss) = (res', k1, ss1)"
    by (metis prod.exhaust)
  have one: "res = res' \<and> counter r1 = k1 \<and> collection r1 = collection r \<and> repr c1 ss1"
    by (rule step_refines [OF Cons.prems(1) u Cons.prems(2) s1 a1])
  obtain rs1 where rest: "run_repo calls (r1, c1) = (rs1, r', c')" and rs: "rs = res # rs1"
    using Cons.prems(4) call s1 by (auto split: prod.splits)
  obtain rs1' where rest': "run_spec calls (k1, ss1) = (rs1', k', ss')" and rs': "rs' = res' # rs1'"
    using Cons.prems(5) call a1 u by (auto simp: call_user_def split: prod.splits)
  have "users_known calls" using Cons.prems(3) by (simp add: users_known_def)
  moreover have "collection r1 \<noteq> None" using one Cons.prems(2) by simp
  ultimately have "rs1 = rs1' \<and> counter r' = k' \<and> collection r' = collection r1 \<and> repr c' ss'"
    using one rest rest' Cons.IH [of c1 ss1 r1 rs1 rs1'] by blast
  with one rs rs' show ?case by simp
qed

text \<open>
  C1. For any sequence of calls whose round trips succeed, made by a process whose user
  is known, the implementation returns exactly the results of the abstract store, keeps
  the counter of the abstract store, and its collection still represents the abstract
  sequence afterwards.
\<close>

theorem run_refines:
  assumes "repr c ss" and "collection r \<noteq> None" and "users_known calls"
    and "run_repo calls (r, c) = (rs, r', c')"
    and "run_spec calls (counter r, ss) = (rs', k', ss')"
  shows "rs = rs' \<and> counter r' = k' \<and> repr c' ss'"
  using run_repo_refines [OF assms] by simp

theorem run_refines_witness:
  "fst (run_repo [(bob_env, OpAdd shopping), (bob_env, OpByName ''shopping''), (bob_env, OpAll)]
          (fresh_repo, empty_coll))
   = fst (run_spec [(bob_env, OpAdd shopping), (bob_env, OpByName ''shopping''), (bob_env, OpAll)]
          (0, []))"
proof -
  let ?calls = "[(bob_env, OpAdd shopping), (bob_env, OpByName ''shopping''), (bob_env, OpAll)]"
  have "repr empty_coll []" by (simp add: repr_def empty_coll_def)
  moreover have "collection fresh_repo \<noteq> None" by (simp add: fresh_repo_def NewNotesRepository_def)
  moreover have "users_known ?calls" by (simp add: users_known_def bob_env_def)
  moreover have "counter fresh_repo = 0" by (simp add: fresh_repo_def NewNotesRepository_def)
  ultimately show ?thesis
    using run_refines [where c = empty_coll and ss = "[]" and r = fresh_repo and calls = ?calls
        and rs = "fst (run_repo ?calls (fresh_repo, empty_coll))"
        and r' = "fst (snd (run_repo ?calls (fresh_repo, empty_coll)))"
        and c' = "snd (snd (run_repo ?calls (fresh_repo, empty_coll)))"
        and rs' = "fst (run_spec ?calls (0, []))"
        and k' = "fst (snd (run_spec ?calls (0, [])))"
        and ss' = "snd (snd (run_spec ?calls (0, [])))"]
    by simp
qed

section \<open>Scenarios of the specification\<close>

text \<open>
  C2. Creating a note whose name no stored note has and then finding it by name returns
  its name, text and tag with the process user as author and the counter as id, when the
  counter fits in \<open>int32\<close>; but its creation time is Go's zero time, since the
  document's key \<open>created_at\<close> is not the key \<open>createdat\<close> of the untagged field
  \<open>CreatedAt\<close>. When the counter does not fit, the note cannot be read back.
\<close>

theorem create_then_find_by_name:
  assumes "repr c ss" and "spec_find_name ss (Name nt) = None" and "current_user en = Some u"
    and "collection r \<noteq> None" and "Add en None nt r c = (res, r', c')"
  shows "ByName None (Name nt) r' c' =
           (if fits_int32 (sint (counter r))
            then Inr \<lparr>Name = Name nt, Text = Text nt, Tag = Tag nt, Author = u,
                      CreatedAt = ZeroTime, ID = scast (counter r)\<rparr>
            else Inl (Wrapf ''show note by author'' (DecodeError ''overflows int32'')))"
proof -
  let ?x = "created_note nt u (now en) (counter r)"
  have rc: "repr c' (ss @ [?x])"
    using Add_refines [OF assms(1,3,4,5)] by simp
  have "collection r' \<noteq> None" using Add_result [OF assms(3-5)] assms(4) by simp
  then have "ByName None (Name nt) r' c' = find_result (found_view (spec_find_name (ss @ [?x]) (Name nt)))"
    using rc by (rule ByName_refines [rotated])
  also have "spec_find_name (ss @ [?x]) (Name nt) = Some ?x"
    using assms(2) by (simp add: spec_find_name_def find_append created_note_def)
  finally show ?thesis
    by (simp add: found_view_def find_result_def id_fits_def read_view_def created_note_def)
qed

theorem create_then_find_by_name_witness:
  "ByName None ''shopping'' (fst (snd (Add bob_env None shopping fresh_repo empty_coll)))
     (snd (snd (Add bob_env None shopping fresh_repo empty_coll))) =
   Inr \<lparr>Name = ''shopping'', Text = ''milk, eggs'', Tag = ''errands'', Author = ''bob'',
        CreatedAt = ZeroTime, ID = 0\<rparr>"
proof -
  have "repr empty_coll []" by (simp add: repr_def empty_coll_def)
  moreover have "spec_find_name [] (Name shopping) = None" by (simp add: spec_find_name_def)
  moreover have "current_user bob_env = Some ''bob''" by (simp add: bob_env_def)
  moreover have "collection fresh_repo \<noteq> None" by (simp add: fresh_repo_def NewNotesRepository_def)
  moreover have "counter fresh_repo = 0" by (simp add: fresh_repo_def NewNotesRepository_def)
  ultimately show ?thesis
    using create_then_find_by_name [where c = empty_coll and ss = "[]" and nt = shopping
        and en = bob_env and u = "''bob''" and r = fresh_repo
        and res = "fst (Add bob_env None shopping fresh_repo empty_coll)"
        and r' = "fst (snd (Add bob_env None shopping fresh_repo empty_coll))"
        and c' = "snd (snd (Add bob_env None shopping fresh_repo empty_coll))"]
    by (simp add: shopping_def zero_note_def fits_int32_def)
qed

text \<open>
  C9. Creating a note and deleting the counter's id, when the stored ids and the
  counter fit in int32 and no earlier note carries that id, succeeds and leaves the
  listing exactly as it was before the creation.
\<close>

theorem create_delete_restores_listing:
  assumes "repr c ss" and "list_all id_fits ss" and "current_user en = Some u"
    and "collection r \<noteq> None" and "fits_int32 (sint (counter r))"
    and "\<not> list_ex (\<lambda>s. sint (sid s) = sint (counter r)) ss"
    and "Add en None nt r c = (res_a, r_a, c_a)"
    and "Delete None (scast (counter r)) r_a c_a = (res_d, c_d)"
  shows "res_d = Inr () \<and> All_notes None r_a c_d = Inr (map read_view ss)"
proof -
  let ?x = "created_note nt u (now en) (counter r)"
  have rca: "repr c_a (ss @ [?x])"
    using Add_refines [OF assms(1,3,4,7)] by simp
  have h1: "collection r_a \<noteq> None" using Add_result [OF assms(3,4,7)] assms(4) by simp
  have rcd: "repr c_d (spec_delete (ss @ [?x]) (sint (scast (counter r) :: int32)))"
    using Delete_refines [OF rca h1 assms(8)] by simp
  have "sint (scast (counter r) :: int32) = sint (counter r)"
    using assms(5) by (rule sint_scast_int32)
  with assms(6) have "spec_delete (ss @ [?x]) (sint (scast (counter r) :: int32)) = ss"
    by (simp add: spec_delete_def remove_first_append created_note_def)
  with rcd have rcd': "repr c_d ss" by simp
  have "res_d = Inr ()" using assms(8) h1
    by (auto simp: Delete_def delete_one_def split: if_splits)
  moreover have "All_notes None r_a c_d = Inr (map read_view ss)"
    using All_refines [OF rcd' h1] assms(2) by simp
  ultimately show ?thesis by simp
qed

theorem create_delete_restores_listing_witness:
  "All_notes None (fst (snd (Add bob_env None shopping fresh_repo empty_coll)))
     (snd (Delete None 0 (fst (snd (Add bob_env None shopping fresh_repo empty_coll)))
                          (snd (snd (Add bob_env None shopping fresh_repo empty_coll))))) = Inr []"
proof -
  let ?a = "Add bob_env None shopping fresh_repo empty_coll"
  let ?d = "Delete None 0 (fst (snd ?a)) (snd (snd ?a))"
  have "repr empty_coll []" by (simp add: repr_def empty_coll_def)
  moreover have "current_user bob_env = Some ''bob''" by (simp add: bob_env_def)
  moreover have "collection fresh_repo \<noteq> None" by (simp add: fresh_repo_def NewNotesRepository_def)
  moreover have k: "counter fresh_repo = 0" by (simp add: fresh_repo_def NewNotesRepository_def)
  moreover have "fits_int32 (sint (counter fresh_repo))" by (simp add: k fits_int32_def)
  ultimately show ?thesis
    using create_delete_restores_listing [where c = empty_coll and ss = "[]" and nt = shopping
        and en = bob_env and u = "''bob''" and r = fresh_repo
        and res_a = "fst ?a" and r_a = "fst (snd ?a)" and c_a = "snd (snd ?a)"
        and res_d = "fst ?d" and c_d = "snd ?d"]
    by simp
qed

section \<open>Identifiers within one process\<close>

lemma spec_step_ids_below:
  assumes "ids_below k ss" "unat k + 1 < 2 ^ 64" "spec_step u t op (k, ss) = (res, k', ss')"
  shows "ids_below k' ss' \<and> unat k' \<le> unat k + 1"
proof (cases op)
  case (OpAdd n)
  have "unat (k + 1) = unat k + 1"
    using assms(2) by (simp add: unat_add_lem [THEN iffD1])
  moreover have "\<forall>s\<in>set ss. sid s \<noteq> k"
    using assms(1) by (auto simp: ids_below_def list_all_iff)
  ultimately show ?thesis
    using assms OpAdd by (fastforce simp: ids_below_def created_note_def list_all_iff)
next
  case (OpDelete i)
  with assms show ?thesis
    by (auto simp: ids_below_def spec_delete_def list_all_iff distinct_map_remove_first
        dest: subsetD [OF set_remove_first])
qed (use assms in auto)

lemma run_spec_ids_below:
  "ids_below k ss \<Longrightarrow> unat k + length calls < 2 ^ 64 \<Longrightarrow> run_spec calls (k, ss) = (rs, k', ss') \<Longrightarrow>
   ids_below k' ss'"
proof (induction calls arbitrary: k ss rs)
  case Nil
  then show ?case by simp
next
  case (Cons call calls)
  obtain en op where call: "call = (en, op)" by (cases call)
  obtain res k1 ss1 where s1: "spec_step (call_user en) (now en) op (k, ss) = (res, k1, ss1)"
    by (metis prod.exhaust)
  have "unat k + 1 < 2 ^ 64" using Cons.prems(2) by simp
  then have one: "ids_below k1 ss1 \<and> unat k1 \<le> unat k + 1"
    by (rule spec_step_ids_below [OF Cons.prems(1) _ s1])
  obtain rs1 where rest: "run_spec calls (k1, ss1) = (rs1, k', ss')"
    using Cons.prems(3) call s1 by (auto split: prod.splits)
  have "unat k1 + length calls < 2 ^ 64" using one Cons.prems(2) by simp
  with one rest show ?case using Cons.IH by blast
qed

text \<open>
  C10. Within one process, starting from a collection whose ids are distinct and below
  the counter (an empty one, say), every sequence of successful calls of fewer than
  \<open>2^64\<close> steps keeps the stored ids pairwise distinct and below the counter: two
  creations in the same process never share an id.
\<close>

theorem process_ids_distinct:
  assumes "repr c ss" and "collection r \<noteq> None" and "users_known calls"
    and "ids_below (counter r) ss" and "unat (counter r) + length calls < 2 ^ 64"
    and "run_repo calls (r, c) = (rs, r', c')"
  shows "\<exists>ss'. repr c' ss' \<and> ids_below (counter r') ss'"
proof -
  obtain rs' k' ss' where sp: "run_spec calls (counter r, ss) = (rs', k', ss')"
    by (metis prod.exhaust)
  have "rs = rs' \<and> counter r' = k' \<and> collection r' = collection r \<and> repr c' ss'"
    by (rule run_repo_refines [OF assms(1-3,6) sp])
  moreover have "ids_below k' ss'"
    by (rule run_spec_ids_below [OF assms(4,5) sp])
  ultimately show ?thesis by auto
qed


theorem process_ids_distinct_witness:
  "\<exists>ss'. repr (snd (snd (run_repo [(bob_env, OpAdd shopping), (bob_env, OpAdd shopping)]
                               (fresh_repo, empty_coll)))) ss'
       \<and> ids_below (counter (fst (snd (run_repo [(bob_env, OpAdd shopping), (bob_env, OpAdd shopping)]
                               (fresh_repo, empty_coll))))) ss'"
proof -
  let ?calls = "[(bob_env, OpAdd shopping), (bob_env, OpAdd shopping)]"
  let ?run = "run_repo ?calls (fresh_repo, empty_coll)"
  have "repr empty_coll []" by (simp add: repr_def empty_coll_def)
  moreover have "collection fresh_repo \<noteq> None" by (simp add: fresh_repo_def NewNotesRepository_def)
  moreover have "users_known ?calls" by (simp add: users_known_def bob_env_def)
  moreover have k: "counter fresh_repo = 0" by (simp add: fresh_repo_def NewNotesRepository_def)
  moreover have "ids_below (counter fresh_repo) []" by (simp add: ids_below_def)
  moreover have "unat (counter fresh_repo) + length ?calls < 2 ^ 64" by (simp add: k)
  ultimately show ?thesis
    using process_ids_distinct [where c = empty_coll and ss = "[]" and r = fresh_repo
        and calls = ?calls and rs = "fst ?run" and r' = "fst (snd ?run)" and c' = "snd (snd ?run)"]
    by simp
qed
section \<open>The list picker over the repository\<close>

lemma start_model_stored:
  assumes "repr c ss" "collection r \<noteq> None" "list_all id_fits ss"
  shows "start_model None r c =
           Inr \<lparr>list_m = \<lparr>items = map sname ss, cursor = 0, width = 20\<rparr>, choice = [], quitting = False\<rparr>"
  using All_refines [OF assms(1,2)] assms(3)
  by (simp add: start_model_def comp_def read_view_def)

text \<open>
  C20. Started on a collection of readable notes, moving the cursor down to entry \<open>k\<close>
  and pressing \<open>enter\<close> shows the text of the first stored note with that entry's
  name, which is another note's text when an earlier note has the same name.
\<close>

theorem tui_opens_first_note_named:
  assumes "repr c ss" and "collection r \<noteq> None" and "list_all id_fits ss"
    and "k < length ss" and "sname (ss ! k) \<noteq> []"
  shows "\<exists>s. spec_find_name ss (sname (ss ! k)) = Some s \<and>
           tui_action None (replicate k (KeyMsg ''down'') @ [KeyMsg ''enter'']) r c = Inr (QuitText (stext s))"
proof -
  let ?n = "sname (ss ! k)"
  let ?m = "\<lparr>list_m = \<lparr>items = map sname ss, cursor = 0, width = 20\<rparr>, choice = [], quitting = False\<rparr>"
  have run: "run_tea (replicate k (KeyMsg ''down'') @ [KeyMsg ''enter'']) ?m =
               (?m\<lparr>list_m := (list_m ?m)\<lparr>cursor := k\<rparr>, choice := ?n\<rparr>, True)"
    using run_tea_downs_enter [where m = ?m and j = 0 and i = k] assms(4) by simp
  have "ss ! k \<in> set ss" using assms(4) by simp
  then obtain s where found: "spec_find_name ss ?n = Some s"
    by (cases "spec_find_name ss ?n") (auto simp: spec_find_name_def find_None_iff)
  then have "s \<in> set ss" by (auto simp: spec_find_name_def dest: find_Some_first)
  with assms(3) have fits: "id_fits s" by (simp add: list_all_iff)
  have "ByName None ?n r c = find_result (found_view (spec_find_name ss ?n))"
    using assms(1,2) by (rule ByName_refines)
  with found fits have byname: "ByName None ?n r c = Inr (read_view s)"
    by (simp add: found_view_def find_result_def)
  have "tui_action None (replicate k (KeyMsg ''down'') @ [KeyMsg ''enter'']) r c = Inr (QuitText (stext s))"
    using start_model_stored [OF assms(1-3)] run view_live [OF assms(2)] byname assms(5)
    by (simp add: tui_action_def read_view_def)
  with found show ?thesis by blast
qed

theorem tui_opens_first_note_named_witness:
  "tui_action None [KeyMsg ''down'', KeyMsg ''enter''] fresh_repo
     \<lparr>docs = [(''_id'', BObjectID 0) # note_doc (shopping\<lparr>Text := ''first''\<rparr>) ''bob'' 0 0,
              (''_id'', BObjectID 1) # note_doc (shopping\<lparr>Text := ''second''\<rparr>) ''bob'' 0 1],
      next_oid = 2\<rparr>
   = Inr (QuitText ''first'')"
proof -
  let ?s1 = "created_note (shopping\<lparr>Text := ''first''\<rparr>) ''bob'' 0 0"
  let ?s2 = "created_note (shopping\<lparr>Text := ''second''\<rparr>) ''bob'' 0 1"
  let ?c = "\<lparr>docs = [(''_id'', BObjectID 0) # note_doc (shopping\<lparr>Text := ''first''\<rparr>) ''bob'' 0 0,
              (''_id'', BObjectID 1) # note_doc (shopping\<lparr>Text := ''second''\<rparr>) ''bob'' 0 1],
              next_oid = 2\<rparr>"
  have "repr ?c [?s1, ?s2]" by (simp add: repr_def stored_as_def spec_doc_created)
  moreover have "collection fresh_repo \<noteq> None" by (simp add: fresh_repo_def NewNotesRepository_def)
  moreover have "list_all id_fits [?s1, ?s2]" by (simp add: id_fits_def created_note_def fits_int32_def)
  moreover have "sname ([?s1, ?s2] ! 1) = ''shopping''" by (simp add: created_note_def shopping_def)
  ultimately obtain s where "spec_find_name [?s1, ?s2] ''shopping'' = Some s"
      and "tui_action None [KeyMsg ''down'', KeyMsg ''enter''] fresh_repo ?c = Inr (QuitText (stext s))"
    using tui_opens_first_note_named [where c = ?c and ss = "[?s1, ?s2]" and r = fresh_repo and k = 1]
    by (auto simp: numeral_2_eq_2)
  moreover have "spec_find_name [?s1, ?s2] ''shopping'' = Some ?s1"
    by (simp add: spec_find_name_def created_note_def shopping_def)
  ultimately show ?thesis by (simp add: created_note_def)
qed

end
